theory Spec2Isabelle
  imports Main
begin

section \<open>The Bluetooth coordination layer of expo-bluetooth\<close>

text \<open>
  A shallow embedding of \<^verbatim>\<open>packages/expo-bluetooth/src/Bluetooth.ts\<close>. The module
  keeps two pieces of process-wide state (the handler registry and the mirror of
  discovered peripherals) and talks to the platform through the \<^verbatim>\<open>ExpoBluetooth\<close>
  object. Both are made explicit here: the state is the record \<open>world\<close>, every request
  handed to \<^verbatim>\<open>ExpoBluetooth\<close> is appended to the log \<open>nativeCalls\<close>, and every
  invocation of a caller-supplied callback is appended to the log \<open>delivered\<close>.
\<close>

subsection \<open>Data model\<close>

datatype central_state = unknown | resetting | unsupported | unauthorized | poweredOff | poweredOn

datatype peripheral_state = disconnected | connecting | connected | disconnecting

datatype characteristic_property = Read | Write | WriteWithoutResponse | Notify

datatype descriptor =
  Descriptor (descriptor_id: string) (descriptor_value: "string option")

datatype characteristic =
  Characteristic (characteristic_id: string) (properties: "characteristic_property list")
    (descriptors: "descriptor list") (characteristic_value: "string option")

datatype service =
  Service (service_id: string) (isPrimary: bool) (characteristics: "characteristic list")

datatype peripheral =
  Peripheral (peripheral_id: string) (state: peripheral_state) (services: "service list")

datatype central = Central (central_state: central_state) (isScanning: bool)

text \<open>
  The failures the module raises or passes on. \<open>UnavailableCapability\<close> is what
  \<^verbatim>\<open>invariantAvailability\<close> throws; \<open>MalformedAddress\<close> is what \<^verbatim>\<open>invariantUUID\<close> and the
  decoding of a transaction id throw; \<open>DescriptorsHaveNoChildren\<close> and \<open>UnknownID\<close> are the
  two errors of \<^verbatim>\<open>_loadChildrenRecursivelyAsync\<close>; \<open>Timeout\<close> is the \<^verbatim>\<open>BluetoothError\<close> with
  code \<^verbatim>\<open>'timeout'\<close>, for a peripheral and a delay; \<open>NativeFailure\<close> is a rejection of a
  native promise; \<open>TypeError\<close> is raised by reading a property of a field the native
  result lacks; \<open>CentralNotDefined\<close> and \<open>UnhandledEvent\<close> are the two errors of the
  event listener.
\<close>

datatype error =
    UnavailableCapability string
  | MalformedAddress string
  | DescriptorsHaveNoChildren
  | UnknownID string
  | Timeout string int
  | NativeFailure string
  | TypeError
  | CentralNotDefined string
  | UnhandledEvent string

subsection \<open>Requests to the native module\<close>

text \<open>
  \<^verbatim>\<open>ScanOptions\<close>: the filter \<^verbatim>\<open>serviceUUIDsToQuery\<close> and the remaining, platform
  specific options, which \<^verbatim>\<open>startScan\<close> forwards untouched as \<^verbatim>\<open>scanningOptions\<close>.
\<close>

record scanning_options =
  androidScanMode :: "string option"
  androidMatchMode :: "string option"
  androidNumberOfMatches :: "string option"

record scan_options = scanning_options +
  serviceUUIDsToQuery :: "string list option"

text \<open>The named parameters \<^verbatim>\<open>Transaction.getUUIDs()\<close> contributes to a discovery request.\<close>

record uuids =
  peripheralUUID :: string
  serviceUUID :: "string option"
  characteristicUUID :: "string option"
  descriptorUUID :: "string option"

text \<open>The object the attribute reads and writes destructure (typed \<^verbatim>\<open>any\<close> in the source).\<close>

record attribute_args =
  arg_peripheralUUID :: string
  arg_serviceUUID :: string
  arg_characteristicUUID :: string
  arg_descriptorUUID :: string
  arg_data :: "string option"

datatype native_call =
    StartScanningAsync "string list" scanning_options
  | StopScanningAsync
  | ConnectPeripheralAsync string "string option"
  | DisconnectPeripheralAsync string
  | ReadRSSIAsync string
  | ReadDescriptorAsync string string string string characteristic_property
  | WriteDescriptorAsync string string string string "string option" characteristic_property
  | ReadCharacteristicAsync string string string characteristic_property
  | WriteCharacteristicAsync string string string "string option" characteristic_property
  | DiscoverServicesForPeripheralAsync uuids "string list option" "characteristic_property option"
  | DiscoverCharacteristicsForServiceAsync uuids "string list option" "characteristic_property option"
  | DiscoverDescriptorsForCharacteristicAsync uuids "string list option" "characteristic_property option"

text \<open>The name of the \<^verbatim>\<open>ExpoBluetooth\<close> method a request invokes.\<close>

fun method_name :: "native_call \<Rightarrow> string" where
  "method_name (StartScanningAsync _ _) = ''startScanningAsync''"
| "method_name StopScanningAsync = ''stopScanningAsync''"
| "method_name (ConnectPeripheralAsync _ _) = ''connectPeripheralAsync''"
| "method_name (DisconnectPeripheralAsync _) = ''disconnectPeripheralAsync''"
| "method_name (ReadRSSIAsync _) = ''readRSSIAsync''"
| "method_name (ReadDescriptorAsync _ _ _ _ _) = ''readDescriptorAsync''"
| "method_name (WriteDescriptorAsync _ _ _ _ _ _) = ''writeDescriptorAsync''"
| "method_name (ReadCharacteristicAsync _ _ _ _) = ''readCharacteristicAsync''"
| "method_name (WriteCharacteristicAsync _ _ _ _ _) = ''writeCharacteristicAsync''"
| "method_name (DiscoverServicesForPeripheralAsync _ _ _) = ''discoverServicesForPeripheralAsync''"
| "method_name (DiscoverCharacteristicsForServiceAsync _ _ _) =
     ''discoverCharacteristicsForServiceAsync''"
| "method_name (DiscoverDescriptorsForCharacteristicAsync _ _ _) =
     ''discoverDescriptorsForCharacteristicAsync''"

text \<open>What a native promise resolves with: an object with the fields the callers destructure.\<close>

record native_result =
  res_peripheral :: "peripheral option"
  res_service :: "service option"
  res_characteristic :: "characteristic option"
  res_descriptor :: "descriptor option"
  res_number :: "int option"

subsection \<open>What the module consumes\<close>

text \<open>
  \<^verbatim>\<open>BluetoothConstants\<close> is missing from the sources: the event names \<^verbatim>\<open>EVENTS\<close> and the
  delimiter \<^verbatim>\<open>DELIMINATOR\<close> (one character, by the address format of the spec) are
  parameters. So are the availability predicate behind \<^verbatim>\<open>invariantAvailability\<close>, the
  well-formedness predicate behind \<^verbatim>\<open>invariantUUID\<close>, and the answers of the native
  module (\<open>nativeBridge\<close>: how the promise of a request settles).
\<close>

record events =
  CENTRAL_DID_UPDATE_STATE :: string
  CENTRAL_DID_DISCOVER_PERIPHERAL :: string
  CENTRAL_DID_DISCONNECT_PERIPHERAL :: string
  CENTRAL_DID_RETRIEVE_CONNECTED_PERIPHERALS :: string
  CENTRAL_DID_RETRIEVE_PERIPHERALS :: string
  ENABLE_BLUETOOTH :: string

record env =
  isCapabilitySupported :: "string \<Rightarrow> bool"
  isValidUUID :: "string \<Rightarrow> bool"
  DELIMINATOR :: char
  EVENTS :: events
  nativeBridge :: "native_call \<Rightarrow> error + native_result"

subsection \<open>Module state\<close>

text \<open>
  Callbacks supplied by the caller are opaque: a callback is a name, and invoking it
  records the name and the argument in \<open>delivered\<close>. What a callback does on its own is
  outside the model. A registered handler is either such a callback or the closure
  \<^verbatim>\<open>startScan\<close> builds around one.
\<close>

type_synonym callback = nat

datatype payload =
    EventPayload "central option" "peripheral option"
  | StatePayload central_state
  | PeripheralArg "peripheral option"
  | TopologyNotice

datatype handler = Direct callback | ScanWrapper callback

record world =
  multiEventHandlers :: "string \<Rightarrow> (nat \<times> handler) list"
  nextToken :: nat
  peripherals :: "string \<rightharpoonup> peripheral"
  nativeCalls :: "native_call list"
  delivered :: "(callback \<times> payload) list"

text \<open>A subscription names one registration: its key and the token of the handler.\<close>

datatype subscription = Subscription (sub_key: string) (sub_token: nat)

text \<open>
  Calling a method of \<^verbatim>\<open>ExpoBluetooth\<close>: the request is issued at once (\<open>issue\<close>); awaiting
  its promise yields the answer of the native module (\<open>request\<close>).
\<close>

definition issue :: "native_call \<Rightarrow> world \<Rightarrow> world" where
  "issue c w = w\<lparr>nativeCalls := nativeCalls w @ [c]\<rparr>"

definition request :: "env \<Rightarrow> native_call \<Rightarrow> world \<Rightarrow> (error + native_result) \<times> world" where
  "request env c w = (nativeBridge env c, issue c w)"

text \<open>
  Modelled from the spec: \<^verbatim>\<open>BluetoothInvariant\<close> is missing from the sources.
  \<^verbatim>\<open>invariantAvailability\<close> consults the availability predicate for the name of a native
  operation and fails with the unavailable-capability error when it does not hold.
\<close>

definition invariantAvailability :: "env \<Rightarrow> string \<Rightarrow> error + unit" where
  "invariantAvailability env methodName =
     (if isCapabilitySupported env methodName then Inr ()
      else Inl (UnavailableCapability methodName))"

text \<open>
  Modelled from the spec: \<^verbatim>\<open>BluetoothInvariant\<close> is missing from the sources.
  \<^verbatim>\<open>invariantUUID\<close> checks that the address is well formed and fails with the
  malformed-address error when it is not.
\<close>

definition invariantUUID :: "env \<Rightarrow> string \<Rightarrow> error + unit" where
  "invariantUUID env uuid = (if isValidUUID env uuid then Inr () else Inl (MalformedAddress uuid))"

text \<open>
  How a call ends for its caller. A plain function throws or returns. A function
  declared \<^verbatim>\<open>async\<close> never throws to its caller: it returns a promise, and what its body
  throws, also before its first \<^verbatim>\<open>await\<close>, rejects that promise; what the body returns
  fulfils it. The definitions of the operations below give the outcome of the body
  (\<open>Inl e\<close> when it fails with \<open>e\<close>); \<open>plain\<close> and \<open>async\<close> say what the caller gets.
  In \<^verbatim>\<open>Bluetooth.ts\<close> \<^verbatim>\<open>startScan\<close> and \<^verbatim>\<open>observeUpdates\<close> are plain functions and every
  other operation is declared \<^verbatim>\<open>async\<close>.
\<close>

datatype 'a completion = Throws error | Returns 'a | Rejects error | Fulfils 'a

fun plain :: "(error + 'a) \<times> world \<Rightarrow> 'a completion \<times> world" where
  "plain (Inl e, w) = (Throws e, w)"
| "plain (Inr v, w) = (Returns v, w)"

fun async :: "(error + 'a) \<times> world \<Rightarrow> 'a completion \<times> world" where
  "async (Inl e, w) = (Rejects e, w)"
| "async (Inr v, w) = (Fulfils v, w)"

subsection \<open>The handler registry\<close>

text \<open>
  \<^verbatim>\<open>BluetoothEventHandler\<close> is missing from the sources; its functions follow the
  HandlerRegistry of the spec, which maps an event key to the sequence of its handlers
  in insertion order. A registration carries a token (the value of the counter
  \<open>nextToken\<close> when it was made), which stands for the identity of the handler.
\<close>

text \<open>
  Modelled from the spec: \<^verbatim>\<open>addHandlerForKey\<close> of the missing \<^verbatim>\<open>BluetoothEventHandler\<close>.
  Registering appends the handler to those of the key, without de-duplication, and
  returns the subscription.
\<close>

definition addHandlerForKey :: "string \<Rightarrow> handler \<Rightarrow> world \<Rightarrow> subscription \<times> world" where
  "addHandlerForKey key h w =
     (Subscription key (nextToken w),
      w\<lparr>multiEventHandlers :=
           (multiEventHandlers w)(key := multiEventHandlers w key @ [(nextToken w, h)]),
         nextToken := Suc (nextToken w)\<rparr>)"



text \<open>
  Modelled from the spec: \<^verbatim>\<open>getHandlersForKey\<close> of the missing \<^verbatim>\<open>BluetoothEventHandler\<close>
  returns the handlers of a key in registration order.
\<close>

definition getHandlersForKey :: "string \<Rightarrow> world \<Rightarrow> handler list" where
  "getHandlersForKey key w = map snd (multiEventHandlers w key)"

text \<open>
  Invoking a handler. The closure of \<^verbatim>\<open>startScan\<close> passes \<^verbatim>\<open>event.peripheral\<close> on to its
  callback; it throws only on a falsy event, and no payload of the model is falsy.
\<close>

fun event_peripheral :: "payload \<Rightarrow> peripheral option" where
  "event_peripheral (EventPayload c p) = p"
| "event_peripheral _ = None"

fun delivery :: "payload \<Rightarrow> handler \<Rightarrow> callback \<times> payload" where
  "delivery x (Direct cb) = (cb, x)"
| "delivery x (ScanWrapper cb) = (cb, PeripheralArg (event_peripheral x))"

definition invoke :: "payload \<Rightarrow> world \<Rightarrow> handler \<Rightarrow> world" where
  "invoke x w h = w\<lparr>delivered := delivered w @ [delivery x h]\<rparr>"

text \<open>
  Modelled from the spec: \<^verbatim>\<open>fireMultiEventHandlers\<close> of the missing
  \<^verbatim>\<open>BluetoothEventHandler\<close> invokes every handler of the key, in registration order, with
  the payload.
\<close>

definition fireMultiEventHandlers :: "string \<Rightarrow> payload \<Rightarrow> world \<Rightarrow> world" where
  "fireMultiEventHandlers event x w = foldl (invoke x) w (getHandlersForKey event w)"

text \<open>
  Modelled from the spec: \<^verbatim>\<open>firePeripheralObservers\<close> of the missing
  \<^verbatim>\<open>BluetoothEventHandler\<close> notifies the topology observers, the handlers that
  \<^verbatim>\<open>observeUpdates\<close> registers under the key \<^verbatim>\<open>'everything'\<close>.
\<close>

definition firePeripheralObservers :: "world \<Rightarrow> world" where
  "firePeripheralObservers w = foldl (invoke TopologyNotice) w (getHandlersForKey ''everything'' w)"

subsection \<open>The local mirror of peripherals\<close>

text \<open>
  \<^verbatim>\<open>BluetoothLocalState\<close> is missing from the sources; its functions follow the
  TopologyCache of the spec, a map from peripheral id to peripheral record.
\<close>

text \<open>
  Modelled from the spec: the merge of the missing \<^verbatim>\<open>BluetoothLocalState\<close> treats the
  services of a peripheral, the characteristics of a service and the descriptors of a
  characteristic as collections keyed by identifier. An incoming entry replaces, by
  \<open>merge\<close>, the entry with its identifier, or is added; the other entries stay.
\<close>

fun upsert :: "('a \<Rightarrow> string) \<Rightarrow> ('a \<Rightarrow> 'a \<Rightarrow> 'a) \<Rightarrow> 'a list \<Rightarrow> 'a \<Rightarrow> 'a list" where
  "upsert key merge [] x = [x]"
| "upsert key merge (y # ys) x =
     (if key y = key x then merge y x # ys else y # upsert key merge ys x)"

text \<open>
  Modelled from the spec: merging a characteristic (missing \<^verbatim>\<open>BluetoothLocalState\<close>)
  overwrites the scalar fields and merges the descriptors by identifier, an incoming
  descriptor overwriting the one it matches.
\<close>

definition mergeCharacteristic :: "characteristic \<Rightarrow> characteristic \<Rightarrow> characteristic" where
  "mergeCharacteristic old new =
     Characteristic (characteristic_id new) (properties new)
       (foldl (upsert descriptor_id (\<lambda>_ d. d)) (descriptors old) (descriptors new))
       (characteristic_value new)"

text \<open>
  Modelled from the spec: merging a service (missing \<^verbatim>\<open>BluetoothLocalState\<close>) overwrites
  the scalar fields and merges the characteristics by identifier.
\<close>

definition mergeService :: "service \<Rightarrow> service \<Rightarrow> service" where
  "mergeService old new =
     Service (service_id new) (isPrimary new)
       (foldl (upsert characteristic_id mergeCharacteristic) (characteristics old)
          (characteristics new))"

text \<open>
  Modelled from the spec: merging a peripheral (missing \<^verbatim>\<open>BluetoothLocalState\<close>)
  overwrites the scalar fields and merges the services by identifier.
\<close>

definition mergePeripheral :: "peripheral \<Rightarrow> peripheral \<Rightarrow> peripheral" where
  "mergePeripheral old new =
     Peripheral (peripheral_id new) (state new)
       (foldl (upsert service_id mergeService) (services old) (services new))"

text \<open>
  Modelled from the spec: \<^verbatim>\<open>getPeripherals\<close> of the missing \<^verbatim>\<open>BluetoothLocalState\<close> returns
  the mirror, which \<^verbatim>\<open>getPeripherals()[id]\<close> then reads.
\<close>

definition getPeripherals :: "world \<Rightarrow> (string \<rightharpoonup> peripheral)" where
  "getPeripherals w = peripherals w"

text \<open>
  Modelled from the spec: \<^verbatim>\<open>clearPeripherals\<close> of the missing \<^verbatim>\<open>BluetoothLocalState\<close>
  empties the mirror.
\<close>

definition clearPeripherals :: "world \<Rightarrow> world" where
  "clearPeripherals w = w\<lparr>peripherals := Map.empty\<rparr>"

text \<open>
  Modelled from the spec: \<^verbatim>\<open>updateStateWithPeripheral\<close> of the missing
  \<^verbatim>\<open>BluetoothLocalState\<close> upserts the record by its identifier: a new peripheral is
  stored as it is, a known one is merged.
\<close>

definition updateStateWithPeripheral :: "world \<Rightarrow> peripheral \<Rightarrow> world" where
  "updateStateWithPeripheral w p =
     w\<lparr>peripherals := (peripherals w)(peripheral_id p \<mapsto>
         (case peripherals w (peripheral_id p) of
            None \<Rightarrow> p
          | Some old \<Rightarrow> mergePeripheral old p))\<rparr>"

subsection \<open>Scanning\<close>

text \<open>
  \<^verbatim>\<open>[...new Set(xs)]\<close>: a JavaScript \<^verbatim>\<open>Set\<close> keeps its elements in insertion order and
  ignores an element it already holds.
\<close>

text \<open>A destructuring default: \<^verbatim>\<open>{ field = d }\<close> takes \<open>d\<close> when the field is absent.\<close>

fun or_default :: "'a option \<Rightarrow> 'a \<Rightarrow> 'a" where
  "or_default None d = d"
| "or_default (Some x) d = x"

definition set_add :: "'a list \<Rightarrow> 'a \<Rightarrow> 'a list" where
  "set_add acc x = (if x \<in> set acc then acc else acc @ [x])"

definition new_Set :: "'a list \<Rightarrow> 'a list" where
  "new_Set xs = foldl set_add [] xs"


definition startScan ::
    "env \<Rightarrow> scan_options \<Rightarrow> callback \<Rightarrow> world \<Rightarrow> (error + subscription) \<times> world" where
  "startScan env scanSettings cb w =
     (case invariantAvailability env ''startScanningAsync'' of
        Inl e \<Rightarrow> (Inl e, w)
      | Inr _ \<Rightarrow>
          (let uuidsToQuery = or_default (serviceUUIDsToQuery scanSettings) [];
               scanningOptions = scanning_options.truncate scanSettings;
               (_, w1) = request env (StartScanningAsync (new_Set uuidsToQuery) scanningOptions) w;
               (subscription, w2) =
                 addHandlerForKey (CENTRAL_DID_DISCOVER_PERIPHERAL (EVENTS env)) (ScanWrapper cb) w1
           in (Inr subscription, w2)))"


definition observeUpdates :: "callback \<Rightarrow> world \<Rightarrow> subscription \<times> world" where
  "observeUpdates cb w = addHandlerForKey ''everything'' (Direct cb) w"

subsection \<open>Validated pass-throughs and attribute access\<close>

definition disconnectAsync :: "env \<Rightarrow> string \<Rightarrow> world \<Rightarrow> (error + native_result) \<times> world" where
  "disconnectAsync env uuid w =
     (case invariantAvailability env ''disconnectPeripheralAsync'' of
        Inl e \<Rightarrow> (Inl e, w)
      | Inr _ \<Rightarrow>
          (case invariantUUID env uuid of
             Inl e \<Rightarrow> (Inl e, w)
           | Inr _ \<Rightarrow> request env (DisconnectPeripheralAsync uuid) w))"

definition readRSSIAsync :: "env \<Rightarrow> string \<Rightarrow> world \<Rightarrow> (error + native_result) \<times> world" where
  "readRSSIAsync env uuid w =
     (case invariantAvailability env ''readRSSIAsync'' of
        Inl e \<Rightarrow> (Inl e, w)
      | Inr _ \<Rightarrow>
          (case invariantUUID env uuid of
             Inl e \<Rightarrow> (Inl e, w)
           | Inr _ \<Rightarrow> request env (ReadRSSIAsync uuid) w))"

text \<open>
  \<^verbatim>\<open>const { descriptor } = await ...; return descriptor.value\<close>: reading \<^verbatim>\<open>value\<close> of a
  field the result lacks is a \<^verbatim>\<open>TypeError\<close>; returning the field itself is not.
\<close>

definition readDescriptorAsync ::
    "env \<Rightarrow> attribute_args \<Rightarrow> world \<Rightarrow> (error + string option) \<times> world" where
  "readDescriptorAsync env a w =
     (case request env
             (ReadDescriptorAsync (arg_peripheralUUID a) (arg_serviceUUID a)
                (arg_characteristicUUID a) (arg_descriptorUUID a) Read) w of
        (Inl e, w1) \<Rightarrow> (Inl e, w1)
      | (Inr r, w1) \<Rightarrow>
          (case res_descriptor r of
             None \<Rightarrow> (Inl TypeError, w1)
           | Some d \<Rightarrow> (Inr (descriptor_value d), w1)))"

definition writeDescriptorAsync ::
    "env \<Rightarrow> attribute_args \<Rightarrow> world \<Rightarrow> (error + descriptor option) \<times> world" where
  "writeDescriptorAsync env a w =
     (case invariantAvailability env ''writeDescriptorAsync'' of
        Inl e \<Rightarrow> (Inl e, w)
      | Inr _ \<Rightarrow>
          (case request env
                  (WriteDescriptorAsync (arg_peripheralUUID a) (arg_serviceUUID a)
                     (arg_characteristicUUID a) (arg_descriptorUUID a) (arg_data a) Write) w of
             (Inl e, w1) \<Rightarrow> (Inl e, w1)
           | (Inr r, w1) \<Rightarrow> (Inr (res_descriptor r), w1)))"

definition readCharacteristicAsync ::
    "env \<Rightarrow> attribute_args \<Rightarrow> world \<Rightarrow> (error + string option) \<times> world" where
  "readCharacteristicAsync env a w =
     (case request env
             (ReadCharacteristicAsync (arg_peripheralUUID a) (arg_serviceUUID a)
                (arg_characteristicUUID a) Read) w of
        (Inl e, w1) \<Rightarrow> (Inl e, w1)
      | (Inr r, w1) \<Rightarrow>
          (case res_characteristic r of
             None \<Rightarrow> (Inl TypeError, w1)
           | Some c \<Rightarrow> (Inr (characteristic_value c), w1)))"

definition writeCharacteristicAsync ::
    "env \<Rightarrow> attribute_args \<Rightarrow> world \<Rightarrow> (error + characteristic option) \<times> world" where
  "writeCharacteristicAsync env a w =
     (case request env
             (WriteCharacteristicAsync (arg_peripheralUUID a) (arg_serviceUUID a)
                (arg_characteristicUUID a) (arg_data a) Write) w of
        (Inl e, w1) \<Rightarrow> (Inl e, w1)
      | (Inr r, w1) \<Rightarrow> (Inr (res_characteristic r), w1))"

subsection \<open>Transaction ids\<close>

text \<open>\<^verbatim>\<open>id.split(DELIMINATOR)\<close> for a one-character delimiter: never the empty array.\<close>

fun split :: "char \<Rightarrow> string \<Rightarrow> string list" where
  "split d [] = [[]]"
| "split d (c # cs) =
     (if c = d then [] # split d cs
      else (case split d cs of [] \<Rightarrow> [[c]] | x # xs \<Rightarrow> (c # x) # xs))"

text \<open>
  Modelled from the spec: \<^verbatim>\<open>getUUIDs\<close> of the missing \<^verbatim>\<open>Transaction\<close> expands an address of
  one to four UUIDs into the named parameters of a native call (peripheral, then
  service, characteristic and descriptor when present).
\<close>

fun getUUIDs :: "string list \<Rightarrow> uuids option" where
  "getUUIDs [p] =
     Some \<lparr>peripheralUUID = p, serviceUUID = None, characteristicUUID = None, descriptorUUID = None\<rparr>"
| "getUUIDs [p, s] =
     Some \<lparr>peripheralUUID = p, serviceUUID = Some s, characteristicUUID = None,
           descriptorUUID = None\<rparr>"
| "getUUIDs [p, s, c] =
     Some \<lparr>peripheralUUID = p, serviceUUID = Some s, characteristicUUID = Some c,
           descriptorUUID = None\<rparr>"
| "getUUIDs [p, s, c, d] =
     Some \<lparr>peripheralUUID = p, serviceUUID = Some s, characteristicUUID = Some c,
           descriptorUUID = Some d\<rparr>"
| "getUUIDs _ = None"

text \<open>
  Modelled from the spec: \<^verbatim>\<open>Transaction.fromTransactionId\<close> (missing from the sources)
  decodes an address by splitting it on the delimiter, and fails with the
  malformed-address error when a segment is not a valid UUID or the segments are not
  one to four.
\<close>

definition fromTransactionId :: "env \<Rightarrow> string \<Rightarrow> error + uuids" where
  "fromTransactionId env transactionId =
     (let components = split (DELIMINATOR env) transactionId in
      if list_all (isValidUUID env) components then
        (case getUUIDs components of
           None \<Rightarrow> Inl (MalformedAddress transactionId)
         | Some u \<Rightarrow> Inr u)
      else Inl (MalformedAddress transactionId))"

subsection \<open>Discovery\<close>

record discover_options =
  opt_id :: string
  opt_serviceUUIDs :: "string list option"
  opt_characteristicProperties :: "characteristic_property option"

text \<open>
  The three discovery operations check availability, decode the id and end in
  \<^verbatim>\<open>return await ExpoBluetooth.discover...(...)\<close>. The loader below fans out over their
  answers, so the moment an answer arrives matters, and their definitions stop where the
  call first waits: \<open>Inl e\<close> says that the body threw \<open>e\<close> before requesting anything (the
  returned promise is rejected from the start); \<open>Inr c\<close> says that the request \<open>c\<close> is
  issued, and the returned promise settles as the native promise of \<open>c\<close> does.
\<close>

definition discoverServicesForPeripheralAsync ::
    "env \<Rightarrow> discover_options \<Rightarrow> world \<Rightarrow> (error + native_call) \<times> world" where
  "discoverServicesForPeripheralAsync env opts w =
     (case invariantAvailability env ''discoverServicesForPeripheralAsync'' of
        Inl e \<Rightarrow> (Inl e, w)
      | Inr _ \<Rightarrow>
          (case fromTransactionId env (opt_id opts) of
             Inl e \<Rightarrow> (Inl e, w)
           | Inr u \<Rightarrow>
               (Inr (DiscoverServicesForPeripheralAsync u (opt_serviceUUIDs opts)
                       (opt_characteristicProperties opts)),
                issue (DiscoverServicesForPeripheralAsync u (opt_serviceUUIDs opts)
                         (opt_characteristicProperties opts)) w)))"

definition discoverCharacteristicsForServiceAsync ::
    "env \<Rightarrow> discover_options \<Rightarrow> world \<Rightarrow> (error + native_call) \<times> world" where
  "discoverCharacteristicsForServiceAsync env opts w =
     (case invariantAvailability env ''discoverCharacteristicsForServiceAsync'' of
        Inl e \<Rightarrow> (Inl e, w)
      | Inr _ \<Rightarrow>
          (case fromTransactionId env (opt_id opts) of
             Inl e \<Rightarrow> (Inl e, w)
           | Inr u \<Rightarrow>
               (Inr (DiscoverCharacteristicsForServiceAsync u (opt_serviceUUIDs opts)
                       (opt_characteristicProperties opts)),
                issue (DiscoverCharacteristicsForServiceAsync u (opt_serviceUUIDs opts)
                         (opt_characteristicProperties opts)) w)))"

definition discoverDescriptorsForCharacteristicAsync ::
    "env \<Rightarrow> discover_options \<Rightarrow> world \<Rightarrow> (error + native_call) \<times> world" where
  "discoverDescriptorsForCharacteristicAsync env opts w =
     (case invariantAvailability env ''discoverDescriptorsForCharacteristicAsync'' of
        Inl e \<Rightarrow> (Inl e, w)
      | Inr _ \<Rightarrow>
          (case fromTransactionId env (opt_id opts) of
             Inl e \<Rightarrow> (Inl e, w)
           | Inr u \<Rightarrow>
               (Inr (DiscoverDescriptorsForCharacteristicAsync u (opt_serviceUUIDs opts)
                       (opt_characteristicProperties opts)),
                issue (DiscoverDescriptorsForCharacteristicAsync u (opt_serviceUUIDs opts)
                         (opt_characteristicProperties opts)) w)))"

text \<open>The call \<^verbatim>\<open>discover...({ id })\<close> of the recursive loader: only the id is given.\<close>

definition only_id :: "string \<Rightarrow> discover_options" where
  "only_id i = \<lparr>opt_id = i, opt_serviceUUIDs = None, opt_characteristicProperties = None\<rparr>"

text \<open>
  What \<^verbatim>\<open>_loadChildrenRecursivelyAsync\<close> resolves with: the descriptors of a
  characteristic, or the array of what its children resolved with.
\<close>

datatype loaded = Descriptors "descriptor list" | Children "loaded list"

text \<open>
  A call of \<^verbatim>\<open>_loadChildrenRecursivelyAsync\<close>, seen from outside, is a promise in one of
  four states: rejected; resolved; waiting for the answer to the discovery request it
  issued (at the peripheral, service or characteristic branch of the function); or
  waiting in \<^verbatim>\<open>Promise.all\<close> for the calls it made for its children. The last state
  records the children and, once one of them has been rejected, the rejection that came
  first, with which \<^verbatim>\<open>Promise.all\<close> rejects; the other children are not cancelled.
\<close>

datatype level = PeripheralLevel | ServiceLevel | CharacteristicLevel

datatype task =
    Failed error
  | Loaded loaded
  | Awaiting level native_call
  | Gathering "error option" "task list"

text \<open>\<open>None\<close>: the promise has not settled.\<close>

fun resolved :: "(error + loaded) option \<Rightarrow> loaded option" where
  "resolved (Some (Inr v)) = Some v"
| "resolved _ = None"

fun rejected :: "(error + loaded) option \<Rightarrow> error option" where
  "rejected (Some (Inl e)) = Some e"
| "rejected _ = None"

fun outcome :: "task \<Rightarrow> (error + loaded) option" where
  "outcome (Failed e) = Some (Inl e)"
| "outcome (Loaded v) = Some (Inr v)"
| "outcome (Awaiting l c) = None"
| "outcome (Gathering (Some e) ts) = Some (Inl e)"
| "outcome (Gathering None ts) =
     map_option (\<lambda>vs. Inr (Children vs)) (those (map (\<lambda>t. resolved (outcome t)) ts))"

text \<open>
  The part of a call of \<^verbatim>\<open>_loadChildrenRecursivelyAsync\<close> that runs at once, up to its
  first \<^verbatim>\<open>await\<close>: the branch on the number of components, and the synchronous part of
  the discovery it calls.
\<close>

fun awaiting :: "level \<Rightarrow> (error + native_call) \<times> world \<Rightarrow> task \<times> world" where
  "awaiting l (Inl e, w) = (Failed e, w)"
| "awaiting l (Inr c, w) = (Awaiting l c, w)"

definition loadChildrenRecursivelyAsync :: "env \<Rightarrow> string \<Rightarrow> world \<Rightarrow> task \<times> world" where
  "loadChildrenRecursivelyAsync env i w =
     (let components = split (DELIMINATOR env) i in
      if length components = 4 then (Failed DescriptorsHaveNoChildren, w)
      else if length components = 3 then
        awaiting CharacteristicLevel (discoverDescriptorsForCharacteristicAsync env (only_id i) w)
      else if length components = 2 then
        awaiting ServiceLevel (discoverCharacteristicsForServiceAsync env (only_id i) w)
      else if length components = 1 then
        awaiting PeripheralLevel (discoverServicesForPeripheralAsync env (only_id i) w)
      else (Failed (UnknownID i), w))"

text \<open>
  \<^verbatim>\<open>xs.map(x => _loadChildrenRecursivelyAsync(x))\<close>: the calls are made in the order of
  the array, and each runs up to its first \<^verbatim>\<open>await\<close> before the next is made.
\<close>

fun start_each :: "env \<Rightarrow> string list \<Rightarrow> world \<Rightarrow> task list \<times> world" where
  "start_each env [] w = ([], w)"
| "start_each env (i # is) w =
     (let (t, w1) = loadChildrenRecursivelyAsync env i w;
          (ts, w2) = start_each env is w1
      in (t # ts, w2))"

text \<open>
  \<^verbatim>\<open>Promise.all\<close> over the calls just made. None of them has resolved yet. Those that
  are rejected already reach \<^verbatim>\<open>Promise.all\<close> in this order: first the calls whose own
  body threw (four components, or an unknown number), which were rejected when they
  were made, in the order of the array; then the calls whose discovery threw, which
  are rejected some jobs later, in the order of the array.
\<close>

definition thrown :: "env \<Rightarrow> string \<Rightarrow> bool" where
  "thrown env i = (length (split (DELIMINATOR env) i) \<notin> {1, 2, 3})"

definition Promise_all :: "env \<Rightarrow> string list \<Rightarrow> task list \<Rightarrow> task" where
  "Promise_all env ids ts =
     Gathering
       (case List.map_filter (\<lambda>(i, t). if thrown env i then rejected (outcome t) else None)
               (zip ids ts)
             @ List.map_filter (\<lambda>t. rejected (outcome t)) ts of
          [] \<Rightarrow> None
        | e # _ \<Rightarrow> Some e)
       ts"

text \<open>
  The rest of the body of \<^verbatim>\<open>_loadChildrenRecursivelyAsync\<close>, which runs when the promise
  of its discovery call has settled. A rejection is rethrown. At the characteristic
  branch the descriptors of the answer are returned; at the service and peripheral
  branches a call is made for each characteristic or service of the answer, and the
  function waits for all of them.
\<close>

definition load_all :: "env \<Rightarrow> string list \<Rightarrow> world \<Rightarrow> task \<times> world" where
  "load_all env ids w = (let (ts, w1) = start_each env ids w in (Promise_all env ids ts, w1))"

fun resumed :: "env \<Rightarrow> level \<Rightarrow> error + native_result \<Rightarrow> world \<Rightarrow> task \<times> world" where
  "resumed env l (Inl e) w = (Failed e, w)"
| "resumed env CharacteristicLevel (Inr r) w =
     (case res_characteristic r of
        None \<Rightarrow> (Failed TypeError, w)
      | Some c \<Rightarrow> (Loaded (Descriptors (descriptors c)), w))"
| "resumed env ServiceLevel (Inr r) w =
     (case res_service r of
        None \<Rightarrow> (Failed TypeError, w)
      | Some s \<Rightarrow> load_all env (map characteristic_id (characteristics s)) w)"
| "resumed env PeripheralLevel (Inr r) w =
     (case res_peripheral r of
        None \<Rightarrow> (Failed TypeError, w)
      | Some p \<Rightarrow> load_all env (map service_id (services p)) w)"

text \<open>
  What happens next is decided outside: one of the pending native promises settles
  (as \<open>nativeBridge\<close> says), and the call that waits for it runs on, with every job
  this triggers, before the next native promise settles. The call is addressed by its
  path: the positions to follow through the nested calls. A rejection that reaches a
  \<^verbatim>\<open>Promise.all\<close> not yet rejected becomes its rejection. A path that does not lead to
  a waiting call settles nothing.
\<close>

fun settle :: "env \<Rightarrow> nat list \<Rightarrow> task \<Rightarrow> world \<Rightarrow> task \<times> world" where
  "settle env [] (Awaiting l c) w = resumed env l (nativeBridge env c) w"
| "settle env (j # path) (Gathering first ts) w =
     (if j < length ts then
        (let (t, w1) = settle env path (ts ! j) w in
         (Gathering (case first of Some e \<Rightarrow> Some e | None \<Rightarrow> rejected (outcome t))
            (ts[j := t]), w1))
      else (Gathering first ts, w))"
| "settle env path t w = (t, w)"

definition load_run :: "env \<Rightarrow> nat list list \<Rightarrow> task \<times> world \<Rightarrow> task \<times> world" where
  "load_run env schedule tw = foldl (\<lambda>(t, w) path. settle env path t w) tw schedule"

subsection \<open>Connecting, with a timeout\<close>

record connect_options =
  timeout :: "int option"
  options :: "string option"
  onDisconnect :: "callback option"

text \<open>
  The promise \<^verbatim>\<open>connectAsync\<close> returns settles once: \<open>resolve\<close> and \<open>reject\<close> change a
  pending promise only. \<open>Resolved None\<close> is a promise resolved with \<^verbatim>\<open>undefined\<close>.
\<close>

datatype 'a promise = Pending | Resolved 'a | Rejected error

fun resolve :: "'a \<Rightarrow> 'a promise \<Rightarrow> 'a promise" where
  "resolve v Pending = Resolved v"
| "resolve v p = p"

fun reject :: "error \<Rightarrow> 'a promise \<Rightarrow> 'a promise" where
  "reject e Pending = Rejected e"
| "reject e p = p"

text \<open>
  The variable \<^verbatim>\<open>timeoutTag\<close>: no timer was set, or the timer is pending, has fired, or
  was cleared before firing. \<^verbatim>\<open>clearTimeout\<close> only affects a pending timer.
\<close>

datatype timer = NoTimer | TimerPending | TimerFired | TimerCleared

fun clearTimeout :: "timer \<Rightarrow> timer" where
  "clearTimeout TimerPending = TimerCleared"
| "clearTimeout t = t"

text \<open>
  A connection attempt after the synchronous part of \<^verbatim>\<open>connectAsync\<close>: the returned
  promise, the timer, and whether the promise of the native call has settled.
\<close>

record connection =
  conn_peripheralUUID :: string
  conn_timeout :: "int option"
  timeoutTag :: timer
  returned :: "native_result option promise"
  nativeSettled :: bool

text \<open>
  \<^verbatim>\<open>if (options.timeout)\<close>: an absent timeout and the number 0 are falsy.
\<close>

fun truthy :: "int option \<Rightarrow> bool" where
  "truthy None = False"
| "truthy (Some t) = (t \<noteq> 0)"

definition connectAsync ::
    "env \<Rightarrow> string \<Rightarrow> connect_options \<Rightarrow> world \<Rightarrow> (error + connection) \<times> world" where
  "connectAsync env uuid opts w =
     (case invariantAvailability env ''connectPeripheralAsync'' of
        Inl e \<Rightarrow> (Inl e, w)
      | Inr _ \<Rightarrow>
          (case invariantUUID env uuid of
             Inl e \<Rightarrow> (Inl e, w)
           | Inr _ \<Rightarrow>
               (let w1 = (case onDisconnect opts of
                            None \<Rightarrow> w
                          | Some cb \<Rightarrow>
                              snd (addHandlerForKey
                                     (CENTRAL_DID_DISCONNECT_PERIPHERAL (EVENTS env)) (Direct cb) w));
                    tag = (if truthy (timeout opts) then TimerPending else NoTimer);
                    w2 = issue (ConnectPeripheralAsync uuid (options opts)) w1
                in (Inr \<lparr>conn_peripheralUUID = uuid, conn_timeout = timeout opts,
                          timeoutTag = tag, returned = Pending, nativeSettled = False\<rparr>, w2))))"

text \<open>
  What happens next is decided outside: the timer expires, or the native promise
  settles. The callback of the timer calls \<^verbatim>\<open>disconnectAsync\<close> without awaiting it and
  rejects with the timeout error. When the native promise settles, a failure rejects,
  the \<^verbatim>\<open>finally\<close> block clears the timer, and \<^verbatim>\<open>resolve(result)\<close> runs last (with
  \<^verbatim>\<open>undefined\<close> after a failure). A timer that is not pending cannot expire, and a
  promise settles once: such events leave everything as it is.
\<close>

datatype connect_event = TimerExpires | NativeSettles "error + native_result"

fun timeout_ms :: "int option \<Rightarrow> int" where
  "timeout_ms None = 0"
| "timeout_ms (Some t) = t"

fun connect_step :: "env \<Rightarrow> connection \<times> world \<Rightarrow> connect_event \<Rightarrow> connection \<times> world" where
  "connect_step env (c, w) TimerExpires =
     (if timeoutTag c = TimerPending then
        (let (_, w1) = disconnectAsync env (conn_peripheralUUID c) w in
         (c\<lparr>timeoutTag := TimerFired,
            returned :=
              reject (Timeout (conn_peripheralUUID c) (timeout_ms (conn_timeout c))) (returned c)\<rparr>,
          w1))
      else (c, w))"
| "connect_step env (c, w) (NativeSettles r) =
     (if nativeSettled c then (c, w)
      else
        (let p1 = (case r of Inl e \<Rightarrow> reject e (returned c) | Inr _ \<Rightarrow> returned c);
             result = (case r of Inl _ \<Rightarrow> None | Inr v \<Rightarrow> Some v)
         in (c\<lparr>nativeSettled := True, timeoutTag := clearTimeout (timeoutTag c),
               returned := resolve result p1\<rparr>, w)))"

definition connect_run ::
    "env \<Rightarrow> connect_event list \<Rightarrow> connection \<times> world \<Rightarrow> connection \<times> world" where
  "connect_run env es cw = foldl (connect_step env) cw es"

subsection \<open>Events pushed by the native module\<close>

text \<open>The fields of \<^verbatim>\<open>NativeEventData\<close> the listener reads.\<close>

record native_event_data =
  data_peripheral :: "peripheral option"
  data_peripherals :: "peripheral list option"
  data_central :: "central option"

text \<open>
  The callback given to \<^verbatim>\<open>addListener\<close>. The \<^verbatim>\<open>switch\<close> takes the first case whose
  constant is the event.
\<close>

definition onNativeEvent ::
    "env \<Rightarrow> string \<Rightarrow> native_event_data \<Rightarrow> world \<Rightarrow> (error + unit) \<times> world" where
  "onNativeEvent env event data w =
     (if event = ''UPDATE'' then
        (let w1 = clearPeripherals w;
             w2 = (case data_peripherals data of
                     None \<Rightarrow> w1
                   | Some ps \<Rightarrow> foldl updateStateWithPeripheral w1 ps)
         in (Inr (), firePeripheralObservers w2))
      else if event = CENTRAL_DID_DISCONNECT_PERIPHERAL (EVENTS env)
            \<or> event = CENTRAL_DID_DISCOVER_PERIPHERAL (EVENTS env) then
        (Inr (),
         firePeripheralObservers
           (fireMultiEventHandlers event (EventPayload None (data_peripheral data)) w))
      else if event = CENTRAL_DID_UPDATE_STATE (EVENTS env) then
        (case data_central data of
           None \<Rightarrow> (Inl (CentralNotDefined event), w)
         | Some central \<Rightarrow>
             (Inr (),
              foldl (invoke (StatePayload (central_state central))) w
                (getHandlersForKey event w)))
      else if event = CENTRAL_DID_RETRIEVE_CONNECTED_PERIPHERALS (EVENTS env)
            \<or> event = CENTRAL_DID_RETRIEVE_PERIPHERALS (EVENTS env) then
        (Inr (), w)
      else if event = ENABLE_BLUETOOTH (EVENTS env) then
        (Inr (), fireMultiEventHandlers event (EventPayload (data_central data) None) w)
      else (Inl (UnhandledEvent event), w))"

subsection \<open>Notions used to state the properties\<close>

text \<open>The position of the first occurrence of an element in a list.\<close>

definition first_index :: "'a list \<Rightarrow> 'a \<Rightarrow> nat" where
  "first_index xs a = length (takeWhile (\<lambda>y. y \<noteq> a) xs)"

text \<open>
  The event names are the names of different kinds of event, and none of them is the
  name \<^verbatim>\<open>'UPDATE'\<close> of the bulk event.
\<close>

definition kinds :: "events \<Rightarrow> string list" where
  "kinds E =
     [''UPDATE'', CENTRAL_DID_DISCONNECT_PERIPHERAL E, CENTRAL_DID_DISCOVER_PERIPHERAL E,
      CENTRAL_DID_UPDATE_STATE E, CENTRAL_DID_RETRIEVE_CONNECTED_PERIPHERALS E,
      CENTRAL_DID_RETRIEVE_PERIPHERALS E, ENABLE_BLUETOOTH E]"

text \<open>The peripherals an event carries (none when the field is absent).\<close>

definition carried :: "native_event_data \<Rightarrow> peripheral list" where
  "carried data = or_default (data_peripherals data) []"

text \<open>The failures of the two checks that precede every validated native call.\<close>

fun validation_failure :: "error \<Rightarrow> bool" where
  "validation_failure (UnavailableCapability m) = True"
| "validation_failure (MalformedAddress u) = True"
| "validation_failure _ = False"

text \<open>The request a call of the loader waits for, if it waits for one.\<close>

fun requested :: "task \<Rightarrow> native_call list" where
  "requested (Awaiting l c) = [c]"
| "requested _ = []"

subsection \<open>Concrete environments and states\<close>

definition example_events :: events where
  "example_events =
     \<lparr>CENTRAL_DID_UPDATE_STATE = ''CENTRAL_DID_UPDATE_STATE'',
      CENTRAL_DID_DISCOVER_PERIPHERAL = ''CENTRAL_DID_DISCOVER_PERIPHERAL'',
      CENTRAL_DID_DISCONNECT_PERIPHERAL = ''CENTRAL_DID_DISCONNECT_PERIPHERAL'',
      CENTRAL_DID_RETRIEVE_CONNECTED_PERIPHERALS = ''CENTRAL_DID_RETRIEVE_CONNECTED_PERIPHERALS'',
      CENTRAL_DID_RETRIEVE_PERIPHERALS = ''CENTRAL_DID_RETRIEVE_PERIPHERALS'',
      ENABLE_BLUETOOTH = ''ENABLE_BLUETOOTH''\<rparr>"

definition no_result :: native_result where
  "no_result =
     \<lparr>res_peripheral = None, res_service = None, res_characteristic = None,
      res_descriptor = None, res_number = None\<rparr>"

text \<open>
  A native module that knows one peripheral with one service, characteristic and
  descriptor, and answers every other request with an object without fields.
\<close>

fun example_bridge :: "native_call \<Rightarrow> error + native_result" where
  "example_bridge (DiscoverServicesForPeripheralAsync u _ _) =
     Inr (no_result\<lparr>res_peripheral :=
            Some (Peripheral ''P1'' connected [Service ''P1|S1'' True []])\<rparr>)"
| "example_bridge (DiscoverCharacteristicsForServiceAsync u _ _) =
     Inr (no_result\<lparr>res_service :=
            Some (Service ''P1|S1'' True [Characteristic ''P1|S1|C1'' [Read] [] None])\<rparr>)"
| "example_bridge (DiscoverDescriptorsForCharacteristicAsync u _ _) =
     Inr (no_result\<lparr>res_characteristic :=
            Some (Characteristic ''P1|S1|C1'' [Read] [Descriptor ''P1|S1|C1|D1'' None] None)\<rparr>)"
| "example_bridge (ReadCharacteristicAsync p s c _) =
     Inr (no_result\<lparr>res_characteristic :=
            Some (Characteristic ''P1|S1|C1'' [Read] [] (Some ''AQ==''))\<rparr>)"
| "example_bridge (WriteCharacteristicAsync p s c d _) =
     Inr (no_result\<lparr>res_characteristic := Some (Characteristic ''P1|S1|C1'' [Write] [] d)\<rparr>)"
| "example_bridge (ReadDescriptorAsync p s c d _) =
     Inr (no_result\<lparr>res_descriptor := Some (Descriptor ''P1|S1|C1|D1'' (Some ''AQ==''))\<rparr>)"
| "example_bridge _ = Inr no_result"

definition example_env :: env where
  "example_env =
     \<lparr>isCapabilitySupported = (\<lambda>m. True), isValidUUID = (\<lambda>u. u \<noteq> []),
      DELIMINATOR = CHR ''|'', EVENTS = example_events, nativeBridge = example_bridge\<rparr>"


definition no_disconnect_env :: env where
  "no_disconnect_env =
     example_env\<lparr>isCapabilitySupported := (\<lambda>m. m \<noteq> ''disconnectPeripheralAsync'')\<rparr>"

definition unavailable_env :: env where
  "unavailable_env = example_env\<lparr>isCapabilitySupported := (\<lambda>m. False)\<rparr>"

definition empty_world :: world where
  "empty_world =
     \<lparr>multiEventHandlers = (\<lambda>k. []), nextToken = 0, peripherals = Map.empty,
      nativeCalls = [], delivered = []\<rparr>"

definition plain_scan :: scan_options where
  "plain_scan =
     \<lparr>androidScanMode = None, androidMatchMode = None, androidNumberOfMatches = None,
      serviceUUIDsToQuery = None\<rparr>"

definition P1 :: peripheral where
  "P1 = Peripheral ''P1'' disconnected []"

definition P2 :: peripheral where
  "P2 = Peripheral ''P2'' connected [Service ''P2|S1'' True []]"

definition attribute_example :: attribute_args where
  "attribute_example =
     \<lparr>arg_peripheralUUID = ''P1'', arg_serviceUUID = ''S1'', arg_characteristicUUID = ''C1'',
      arg_descriptorUUID = ''D1'', arg_data = None\<rparr>"

definition cached_world :: world where
  "cached_world = snd (observeUpdates 3 (updateStateWithPeripheral empty_world P1))"

definition update_with_P2 :: native_event_data where
  "update_with_P2 = \<lparr>data_peripheral = None, data_peripherals = Some [P2], data_central = None\<rparr>"

definition discovered_P1 :: native_event_data where
  "discovered_P1 = \<lparr>data_peripheral = Some P1, data_peripherals = None, data_central = None\<rparr>"



definition scanning_world :: world where
  "scanning_world = snd (startScan example_env plain_scan 5 cached_world)"


definition connect_50 :: connect_options where
  "connect_50 = \<lparr>timeout = Some 50, options = None, onDisconnect = None\<rparr>"

definition attempt_50 :: connection where
  "attempt_50 =
     \<lparr>conn_peripheralUUID = ''P1'', conn_timeout = Some 50, timeoutTag = TimerPending,
      returned = Pending, nativeSettled = False\<rparr>"

definition connecting_world :: world where
  "connecting_world = empty_world\<lparr>nativeCalls := [ConnectPeripheralAsync ''P1'' None]\<rparr>"

text \<open>
  A native module that knows a peripheral with two services. The first service has one
  characteristic; the characteristic discovery of the second fails, and so does the
  descriptor discovery.
\<close>

fun fanout_bridge :: "native_call \<Rightarrow> error + native_result" where
  "fanout_bridge (DiscoverServicesForPeripheralAsync u _ _) =
     Inr (no_result\<lparr>res_peripheral :=
            Some (Peripheral ''P1'' connected [Service ''P1|S1'' True [], Service ''P1|S2'' True []])\<rparr>)"
| "fanout_bridge (DiscoverCharacteristicsForServiceAsync u _ _) =
     (if serviceUUID u = Some ''S1''
      then Inr (no_result\<lparr>res_service :=
                  Some (Service ''P1|S1'' True [Characteristic ''P1|S1|C1'' [Read] [] None])\<rparr>)
      else Inl (NativeFailure ''S2''))"
| "fanout_bridge (DiscoverDescriptorsForCharacteristicAsync u _ _) = Inl (NativeFailure ''C1'')"
| "fanout_bridge _ = Inr no_result"

definition fanout_env :: env where
  "fanout_env = example_env\<lparr>nativeBridge := fanout_bridge\<rparr>"

definition services_of_P1 :: native_call where
  "services_of_P1 =
     DiscoverServicesForPeripheralAsync
       \<lparr>peripheralUUID = ''P1'', serviceUUID = None, characteristicUUID = None,
        descriptorUUID = None\<rparr> None None"

definition characteristics_of_S1 :: native_call where
  "characteristics_of_S1 =
     DiscoverCharacteristicsForServiceAsync
       \<lparr>peripheralUUID = ''P1'', serviceUUID = Some ''S1'', characteristicUUID = None,
        descriptorUUID = None\<rparr> None None"

definition characteristics_of_S2 :: native_call where
  "characteristics_of_S2 =
     DiscoverCharacteristicsForServiceAsync
       \<lparr>peripheralUUID = ''P1'', serviceUUID = Some ''S2'', characteristicUUID = None,
        descriptorUUID = None\<rparr> None None"

definition descriptors_of_C1 :: native_call where
  "descriptors_of_C1 =
     DiscoverDescriptorsForCharacteristicAsync
       \<lparr>peripheralUUID = ''P1'', serviceUUID = Some ''S1'', characteristicUUID = Some ''C1'',
        descriptorUUID = None\<rparr> None None"

text \<open>The same platform without the characteristic discovery.\<close>

definition no_characteristics_env :: env where
  "no_characteristics_env =
     fanout_env\<lparr>isCapabilitySupported := (\<lambda>m. m \<noteq> ''discoverCharacteristicsForServiceAsync'')\<rparr>"

section \<open>Properties\<close>

subsection \<open>The scan filter\<close>

lemma new_Set_snoc: "new_Set (xs @ [x]) = set_add (new_Set xs) x"
  by (simp add: new_Set_def)

lemma set_new_Set: "set (new_Set xs) = set xs"
  by (induction xs rule: rev_induct) (auto simp: new_Set_snoc set_add_def, simp add: new_Set_def)

lemma distinct_new_Set: "distinct (new_Set xs)"
  by (induction xs rule: rev_induct) (auto simp: new_Set_snoc set_add_def set_new_Set, simp add: new_Set_def)

lemma first_index_append: "a \<in> set xs \<Longrightarrow> first_index (xs @ ys) a = first_index xs a"
  unfolding first_index_def by (induction xs) auto

lemma first_index_less: "a \<in> set xs \<Longrightarrow> first_index xs a < length xs"
  unfolding first_index_def by (induction xs) auto

lemma first_index_fresh: "a \<notin> set xs \<Longrightarrow> first_index (xs @ [a]) a = length xs"
  unfolding first_index_def by (induction xs) auto

lemma new_Set_first_occurrence_order:
  "sorted_wrt (\<lambda>a b. first_index xs a < first_index xs b) (new_Set xs)"
proof (induction xs rule: rev_induct)
  case Nil
  show ?case by (simp add: new_Set_def)
next
  case (snoc x xs)
  have keep: "sorted_wrt (\<lambda>a b. first_index (xs @ [x]) a < first_index (xs @ [x]) b) (new_Set xs)"
    using snoc by (rule sorted_wrt_mono_rel[rotated]) (simp add: set_new_Set first_index_append)
  show ?case
  proof (cases "x \<in> set xs")
    case True
    then show ?thesis using keep by (simp add: new_Set_snoc set_add_def set_new_Set)
  next
    case False
    then show ?thesis using keep
      by (simp add: new_Set_snoc set_add_def set_new_Set sorted_wrt_append first_index_append
          first_index_fresh first_index_less)
  qed
qed

lemma startScan_calls:
  "nativeCalls (snd (startScan env scanSettings cb w)) =
     nativeCalls w @
       (if isCapabilitySupported env ''startScanningAsync''
        then [StartScanningAsync (new_Set (or_default (serviceUUIDsToQuery scanSettings) []))
                (scanning_options.truncate scanSettings)]
        else [])"
  by (simp add: startScan_def invariantAvailability_def request_def issue_def
      addHandlerForKey_def Let_def)

text \<open>
  Claim C7. Whatever \<^verbatim>\<open>serviceUUIDsToQuery\<close> holds, the filter \<^verbatim>\<open>startScan\<close> hands to the
  native start-scan call (the only request it can issue) lists every UUID of the input
  exactly once, ordered by first occurrence, and is empty when the field is absent.
\<close>

theorem startScan_filter_deduplicated:
  "\<exists>uuidFilter.
     nativeCalls (snd (startScan env scanSettings cb w)) =
       nativeCalls w @
         (if isCapabilitySupported env ''startScanningAsync''
          then [StartScanningAsync uuidFilter (scanning_options.truncate scanSettings)]
          else [])
     \<and> distinct uuidFilter
     \<and> set uuidFilter = set (or_default (serviceUUIDsToQuery scanSettings) [])
     \<and> sorted_wrt
          (\<lambda>a b. first_index (or_default (serviceUUIDsToQuery scanSettings) []) a
                 < first_index (or_default (serviceUUIDsToQuery scanSettings) []) b) uuidFilter
     \<and> (serviceUUIDsToQuery scanSettings = None \<longrightarrow> uuidFilter = [])"
proof (intro exI conjI)
  show "nativeCalls (snd (startScan env scanSettings cb w)) =
     nativeCalls w @
       (if isCapabilitySupported env ''startScanningAsync''
        then [StartScanningAsync (new_Set (or_default (serviceUUIDsToQuery scanSettings) []))
                (scanning_options.truncate scanSettings)]
        else [])"
    by (rule startScan_calls)
  show "distinct (new_Set (or_default (serviceUUIDsToQuery scanSettings) []))"
    by (rule distinct_new_Set)
  show "set (new_Set (or_default (serviceUUIDsToQuery scanSettings) [])) =
        set (or_default (serviceUUIDsToQuery scanSettings) [])"
    by (rule set_new_Set)
  show "sorted_wrt
          (\<lambda>a b. first_index (or_default (serviceUUIDsToQuery scanSettings) []) a
                 < first_index (or_default (serviceUUIDsToQuery scanSettings) []) b)
          (new_Set (or_default (serviceUUIDsToQuery scanSettings) []))"
    by (rule new_Set_first_occurrence_order)
  show "serviceUUIDsToQuery scanSettings = None \<longrightarrow>
        new_Set (or_default (serviceUUIDsToQuery scanSettings) []) = []"
    by (simp add: new_Set_def)
qed

theorem startScan_filter_deduplicated_witness:
  "nativeCalls (snd (startScan example_env (plain_scan\<lparr>serviceUUIDsToQuery := Some [''A'', ''B'', ''A'']\<rparr>) 7 empty_world))
     = [StartScanningAsync [''A'', ''B'']
          \<lparr>androidScanMode = None, androidMatchMode = None, androidNumberOfMatches = None\<rparr>]
   \<and> nativeCalls (snd (startScan example_env plain_scan 7 empty_world))
     = [StartScanningAsync []
          \<lparr>androidScanMode = None, androidMatchMode = None, androidNumberOfMatches = None\<rparr>]"
proof -
  obtain f where
    c: "nativeCalls (snd (startScan example_env (plain_scan\<lparr>serviceUUIDsToQuery := Some [''A'', ''B'', ''A'']\<rparr>) 7 empty_world))
        = nativeCalls empty_world @
         (if isCapabilitySupported example_env ''startScanningAsync''
          then [StartScanningAsync f (scanning_options.truncate (plain_scan\<lparr>serviceUUIDsToQuery := Some [''A'', ''B'', ''A'']\<rparr>))]
          else [])"
    and d: "distinct f"
    and s: "set f = set (or_default (serviceUUIDsToQuery (plain_scan\<lparr>serviceUUIDsToQuery := Some [''A'', ''B'', ''A'']\<rparr>)) [])"
    and o: "sorted_wrt
          (\<lambda>a b. first_index (or_default (serviceUUIDsToQuery (plain_scan\<lparr>serviceUUIDsToQuery := Some [''A'', ''B'', ''A'']\<rparr>)) []) a
                 < first_index (or_default (serviceUUIDsToQuery (plain_scan\<lparr>serviceUUIDsToQuery := Some [''A'', ''B'', ''A'']\<rparr>)) []) b) f"
    using startScan_filter_deduplicated
      [of example_env "plain_scan\<lparr>serviceUUIDsToQuery := Some [''A'', ''B'', ''A'']\<rparr>" 7 empty_world]
    by blast
  obtain g where
    c': "nativeCalls (snd (startScan example_env plain_scan 7 empty_world))
        = nativeCalls empty_world @
         (if isCapabilitySupported example_env ''startScanningAsync''
          then [StartScanningAsync g (scanning_options.truncate plain_scan)]
          else [])"
    and e: "serviceUUIDsToQuery plain_scan = None \<longrightarrow> g = []"
    using startScan_filter_deduplicated [of example_env plain_scan 7 empty_world]
    by (elim exE conjE) simp
  have "g = []" using e by (simp add: plain_scan_def)
  moreover have "f = [''A'', ''B'']"
    using c by (simp add: startScan_calls new_Set_def set_add_def example_env_def plain_scan_def)
  ultimately show ?thesis
    using c c'
    by (simp add: example_env_def empty_world_def plain_scan_def scanning_options.truncate_def)
qed

subsection \<open>Dispatch to handlers\<close>

lemma foldl_invoke:
  "foldl (invoke x) w hs = w\<lparr>delivered := delivered w @ map (delivery x) hs\<rparr>"
  by (induction hs arbitrary: w) (simp_all add: invoke_def)

lemma fireMultiEventHandlers_delivers:
  "fireMultiEventHandlers event x w =
     w\<lparr>delivered := delivered w @ map (delivery x) (getHandlersForKey event w)\<rparr>"
  by (simp add: fireMultiEventHandlers_def foldl_invoke)

lemma firePeripheralObservers_delivers:
  "firePeripheralObservers w =
     w\<lparr>delivered := delivered w @ map (delivery TopologyNotice) (getHandlersForKey ''everything'' w)\<rparr>"
  by (simp add: firePeripheralObservers_def foldl_invoke)

subsection \<open>The mirror under a bulk update\<close>

lemma update_frame:
  "multiEventHandlers (updateStateWithPeripheral w p) = multiEventHandlers w
   \<and> nativeCalls (updateStateWithPeripheral w p) = nativeCalls w
   \<and> delivered (updateStateWithPeripheral w p) = delivered w
   \<and> nextToken (updateStateWithPeripheral w p) = nextToken w"
  by (simp add: updateStateWithPeripheral_def)

lemma foldl_update_frame:
  "multiEventHandlers (foldl updateStateWithPeripheral w ps) = multiEventHandlers w
   \<and> nativeCalls (foldl updateStateWithPeripheral w ps) = nativeCalls w
   \<and> delivered (foldl updateStateWithPeripheral w ps) = delivered w
   \<and> nextToken (foldl updateStateWithPeripheral w ps) = nextToken w"
  by (induction ps arbitrary: w) (simp_all add: update_frame)

lemma dom_update:
  "dom (peripherals (updateStateWithPeripheral w p)) = insert (peripheral_id p) (dom (peripherals w))"
  by (simp add: updateStateWithPeripheral_def)

lemma dom_foldl_update:
  "dom (peripherals (foldl updateStateWithPeripheral w ps)) =
     dom (peripherals w) \<union> peripheral_id ` set ps"
  by (induction ps arbitrary: w) (auto simp: dom_update)

lemma update_other:
  "i \<noteq> peripheral_id p \<Longrightarrow> peripherals (updateStateWithPeripheral w p) i = peripherals w i"
  by (simp add: updateStateWithPeripheral_def)

lemma foldl_update_other:
  "i \<notin> peripheral_id ` set ps \<Longrightarrow>
   peripherals (foldl updateStateWithPeripheral w ps) i = peripherals w i"
  by (induction ps arbitrary: w) (auto simp: update_other)

lemma update_fresh:
  "peripherals w (peripheral_id p) = None \<Longrightarrow>
   peripherals (updateStateWithPeripheral w p) (peripheral_id p) = Some p"
  by (simp add: updateStateWithPeripheral_def)

lemma foldl_update_distinct:
  "distinct (map peripheral_id ps) \<Longrightarrow>
   \<forall>q \<in> set ps. peripherals w (peripheral_id q) = None \<Longrightarrow>
   p \<in> set ps \<Longrightarrow>
   peripherals (foldl updateStateWithPeripheral w ps) (peripheral_id p) = Some p"
proof (induction ps arbitrary: w)
  case Nil
  then show ?case by simp
next
  case (Cons q ps)
  show ?case
  proof (cases "p = q")
    case True
    have "peripheral_id q \<notin> peripheral_id ` set ps" using Cons.prems(1) by simp
    then have "peripherals (foldl updateStateWithPeripheral (updateStateWithPeripheral w q) ps)
                 (peripheral_id q) = peripherals (updateStateWithPeripheral w q) (peripheral_id q)"
      by (rule foldl_update_other)
    also have "\<dots> = Some q" using Cons.prems(2) by (simp add: update_fresh)
    finally show ?thesis using True by simp
  next
    case False
    then have mem: "p \<in> set ps" using Cons.prems(3) by simp
    have d: "distinct (map peripheral_id ps)" using Cons.prems(1) by simp
    have fresh: "\<forall>r \<in> set ps. peripherals (updateStateWithPeripheral w q) (peripheral_id r) = None"
    proof
      fix r assume r: "r \<in> set ps"
      then have "peripheral_id r \<in> peripheral_id ` set ps" by (rule imageI)
      moreover have "peripheral_id q \<notin> peripheral_id ` set ps" using Cons.prems(1) by simp
      ultimately have "peripheral_id r \<noteq> peripheral_id q" by metis
      then show "peripherals (updateStateWithPeripheral w q) (peripheral_id r) = None"
        using Cons.prems(2) r by (simp add: update_other)
    qed
    show ?thesis using Cons.IH[OF d fresh mem] by simp
  qed
qed

lemma onNativeEvent_UPDATE:
  "onNativeEvent env ''UPDATE'' data w =
     (Inr (), firePeripheralObservers (foldl updateStateWithPeripheral (clearPeripherals w) (carried data)))"
  by (cases "data_peripherals data") (simp_all add: onNativeEvent_def carried_def Let_def)

text \<open>
  Claim C2. Whatever the mirror held, after an \<^verbatim>\<open>'UPDATE'\<close> event it holds exactly the
  peripherals the event carries: its keys are their ids, so an id cached before and
  absent from the event is no longer retrievable; each carried record is the one
  retrieved under its id (when the ids of the event are distinct); an event without
  peripherals leaves the mirror empty. The topology observers are notified, each once
  in registration order, and nothing else changes.
\<close>

theorem UPDATE_replaces_mirror:
  assumes "onNativeEvent env ''UPDATE'' data w = (r, w')"
  shows "r = Inr ()
    \<and> dom (getPeripherals w') = peripheral_id ` set (carried data)
    \<and> (\<forall>i. i \<notin> peripheral_id ` set (carried data) \<longrightarrow> getPeripherals w' i = None)
    \<and> (distinct (map peripheral_id (carried data)) \<longrightarrow>
         (\<forall>p \<in> set (carried data). getPeripherals w' (peripheral_id p) = Some p))
    \<and> (carried data = [] \<longrightarrow> getPeripherals w' = Map.empty)
    \<and> delivered w' =
        delivered w @ map (delivery TopologyNotice) (getHandlersForKey ''everything'' w)
    \<and> multiEventHandlers w' = multiEventHandlers w
    \<and> nativeCalls w' = nativeCalls w"
proof -
  let ?w2 = "foldl updateStateWithPeripheral (clearPeripherals w) (carried data)"
  have r: "r = Inr ()" and w': "w' = firePeripheralObservers ?w2"
    using assms by (simp_all add: onNativeEvent_UPDATE)
  have per: "getPeripherals w' = peripherals ?w2"
    by (simp add: w' getPeripherals_def firePeripheralObservers_delivers)
  have dom: "dom (peripherals ?w2) = peripheral_id ` set (carried data)"
    by (simp add: dom_foldl_update clearPeripherals_def)
  have absent: "\<forall>i. i \<notin> peripheral_id ` set (carried data) \<longrightarrow> peripherals ?w2 i = None"
    using dom by blast
  have present: "distinct (map peripheral_id (carried data)) \<longrightarrow>
         (\<forall>p \<in> set (carried data). peripherals ?w2 (peripheral_id p) = Some p)"
    by (auto intro!: foldl_update_distinct simp: clearPeripherals_def)
  have emp: "carried data = [] \<longrightarrow> peripherals ?w2 = Map.empty"
    by (simp add: clearPeripherals_def)
  have frame: "multiEventHandlers ?w2 = multiEventHandlers w \<and> nativeCalls ?w2 = nativeCalls w
               \<and> delivered ?w2 = delivered w"
    by (simp add: foldl_update_frame clearPeripherals_def)
  have del: "delivered w' =
        delivered w @ map (delivery TopologyNotice) (getHandlersForKey ''everything'' w)"
    using frame by (simp add: w' firePeripheralObservers_delivers getHandlersForKey_def)
  have reg: "multiEventHandlers w' = multiEventHandlers w \<and> nativeCalls w' = nativeCalls w"
    using frame by (simp add: w' firePeripheralObservers_delivers)
  show ?thesis using r per dom absent present emp del reg by simp
qed

lemma cached_world_simps:
  "cached_world =
     \<lparr>multiEventHandlers = (\<lambda>k. [])(''everything'' := [(0, Direct 3)]), nextToken = Suc 0,
      peripherals = [''P1'' \<mapsto> P1], nativeCalls = [], delivered = []\<rparr>"
  by (simp add: cached_world_def observeUpdates_def addHandlerForKey_def
      updateStateWithPeripheral_def empty_world_def P1_def)

theorem UPDATE_replaces_mirror_witness:
  "getPeripherals cached_world ''P1'' = Some P1
   \<and> fst (onNativeEvent example_env ''UPDATE'' update_with_P2 cached_world) = Inr ()
   \<and> getPeripherals (snd (onNativeEvent example_env ''UPDATE'' update_with_P2 cached_world)) ''P1'' = None
   \<and> getPeripherals (snd (onNativeEvent example_env ''UPDATE'' update_with_P2 cached_world)) ''P2'' = Some P2
   \<and> delivered (snd (onNativeEvent example_env ''UPDATE'' update_with_P2 cached_world)) = [(3, TopologyNotice)]"
proof -
  have c: "carried update_with_P2 = [P2]" by (simp add: carried_def update_with_P2_def)
  have i1: "''P1'' \<notin> peripheral_id ` set (carried update_with_P2)" by (simp add: c P2_def)
  have d: "distinct (map peripheral_id (carried update_with_P2))" by (simp add: c)
  have m: "P2 \<in> set (carried update_with_P2)" by (simp add: c)
  have h: "getHandlersForKey ''everything'' cached_world = [Direct 3]"
    by (simp add: getHandlersForKey_def cached_world_simps)
  have p2: "peripheral_id P2 = ''P2''" by (simp add: P2_def)
  have old: "getPeripherals cached_world ''P1'' = Some P1"
    by (simp add: getPeripherals_def cached_world_simps)
  have dl: "delivered cached_world = []" by (simp add: cached_world_simps)
  show ?thesis
    using UPDATE_replaces_mirror
      [of example_env update_with_P2 cached_world
          "fst (onNativeEvent example_env ''UPDATE'' update_with_P2 cached_world)"
          "snd (onNativeEvent example_env ''UPDATE'' update_with_P2 cached_world)"]
      i1 d m h p2 old dl
    by auto
qed

subsection \<open>Single events\<close>

lemma kinds_example: "distinct (kinds (EVENTS example_env))"
  by (simp add: kinds_def example_env_def example_events_def)

text \<open>
  Claim C5, as the code has it. An event of kind peripheral-discovered or
  peripheral-disconnected (whose name is not that of the bulk event) is multicast: every handler registered under the event's
  name receives the event's peripheral, in registration order, and then the topology
  observers are notified. The mirror of peripherals is left as it was (only the bulk
  \<^verbatim>\<open>'UPDATE'\<close> event writes to it), and so are the registry and the native requests.
\<close>

theorem discover_disconnect_multicast:
  assumes "event \<noteq> ''UPDATE''"
    and "event = CENTRAL_DID_DISCOVER_PERIPHERAL (EVENTS env)
         \<or> event = CENTRAL_DID_DISCONNECT_PERIPHERAL (EVENTS env)"
    and "onNativeEvent env event data w = (r, w')"
  shows "r = Inr ()
    \<and> getPeripherals w' = getPeripherals w
    \<and> delivered w' =
        delivered w
        @ map (delivery (EventPayload None (data_peripheral data))) (getHandlersForKey event w)
        @ map (delivery TopologyNotice) (getHandlersForKey ''everything'' w)
    \<and> multiEventHandlers w' = multiEventHandlers w
    \<and> nativeCalls w' = nativeCalls w"
proof -
  have c1: "(event = ''UPDATE'') = False" using assms(1) by simp
  have c2: "(event = CENTRAL_DID_DISCONNECT_PERIPHERAL (EVENTS env)
             \<or> event = CENTRAL_DID_DISCOVER_PERIPHERAL (EVENTS env)) = True"
    using assms(2) by blast
  have "onNativeEvent env event data w =
      (Inr (), firePeripheralObservers
                 (fireMultiEventHandlers event (EventPayload None (data_peripheral data)) w))"
    by (simp only: onNativeEvent_def c1 c2 if_False if_True)
  then show ?thesis
    using assms(3)
    by (auto simp: firePeripheralObservers_delivers fireMultiEventHandlers_delivers
        getPeripherals_def getHandlersForKey_def)
qed

lemma scanning_world_simps:
  "scanning_world =
     \<lparr>multiEventHandlers =
        (\<lambda>k. [])(''everything'' := [(0, Direct 3)],
                 ''CENTRAL_DID_DISCOVER_PERIPHERAL'' := [(Suc 0, ScanWrapper 5)]),
      nextToken = Suc (Suc 0),
      peripherals = [''P1'' \<mapsto> P1],
      nativeCalls = [StartScanningAsync []
          \<lparr>androidScanMode = None, androidMatchMode = None, androidNumberOfMatches = None\<rparr>],
      delivered = []\<rparr>"
  by (simp add: scanning_world_def startScan_def invariantAvailability_def request_def issue_def
      addHandlerForKey_def Let_def cached_world_simps example_env_def example_events_def
      plain_scan_def new_Set_def scanning_options.truncate_def)

theorem discover_disconnect_multicast_witness:
  "fst (onNativeEvent example_env ''CENTRAL_DID_DISCOVER_PERIPHERAL'' discovered_P1 scanning_world)
     = Inr ()
   \<and> getPeripherals
       (snd (onNativeEvent example_env ''CENTRAL_DID_DISCOVER_PERIPHERAL'' discovered_P1 scanning_world))
     = getPeripherals scanning_world
   \<and> delivered
       (snd (onNativeEvent example_env ''CENTRAL_DID_DISCOVER_PERIPHERAL'' discovered_P1 scanning_world))
     = [(5, PeripheralArg (Some P1)), (3, TopologyNotice)]"
proof -
  have k: "''CENTRAL_DID_DISCOVER_PERIPHERAL'' = CENTRAL_DID_DISCOVER_PERIPHERAL (EVENTS example_env)
         \<or> ''CENTRAL_DID_DISCOVER_PERIPHERAL'' = CENTRAL_DID_DISCONNECT_PERIPHERAL (EVENTS example_env)"
    by (simp add: example_env_def example_events_def)
  have h: "getHandlersForKey ''CENTRAL_DID_DISCOVER_PERIPHERAL'' scanning_world = [ScanWrapper 5]"
    "getHandlersForKey ''everything'' scanning_world = [Direct 3]"
    "delivered scanning_world = []"
    by (simp_all add: getHandlersForKey_def scanning_world_simps)
  have p: "data_peripheral discovered_P1 = Some P1" by (simp add: discovered_P1_def)
  have u: "''CENTRAL_DID_DISCOVER_PERIPHERAL'' \<noteq> ''UPDATE''" by simp
  show ?thesis
    using discover_disconnect_multicast
      [OF u k,
       of discovered_P1 scanning_world
          "fst (onNativeEvent example_env ''CENTRAL_DID_DISCOVER_PERIPHERAL'' discovered_P1 scanning_world)"
          "snd (onNativeEvent example_env ''CENTRAL_DID_DISCOVER_PERIPHERAL'' discovered_P1 scanning_world)"]
      h p
    by simp
qed

theorem discovered_peripheral_not_merged:
  "getPeripherals
     (snd (onNativeEvent example_env ''CENTRAL_DID_DISCOVER_PERIPHERAL'' discovered_P1 empty_world))
     (peripheral_id P1) = None"
  by (simp add: onNativeEvent_def example_env_def example_events_def
      firePeripheralObservers_delivers fireMultiEventHandlers_delivers getPeripherals_def
      empty_world_def)

text \<open>
  Claim C8. An event whose name is none of the recognised ones (\<^verbatim>\<open>'UPDATE'\<close> and the six
  names of \<^verbatim>\<open>EVENTS\<close> the listener switches on) makes the listener throw the
  unhandled-event error; the mirror, the registry and both logs are as before, so no
  handler was invoked.
\<close>

theorem unrecognized_event_is_fatal:
  assumes "event \<notin> set (kinds (EVENTS env))"
  shows "onNativeEvent env event data w = (Inl (UnhandledEvent event), w)"
  using assms by (simp add: onNativeEvent_def kinds_def)

theorem unrecognized_event_is_fatal_witness:
  "''PERIPHERAL_DID_UPDATE_NAME'' \<notin> set (kinds (EVENTS example_env))
   \<and> onNativeEvent example_env ''PERIPHERAL_DID_UPDATE_NAME'' discovered_P1 scanning_world
     = (Inl (UnhandledEvent ''PERIPHERAL_DID_UPDATE_NAME''), scanning_world)"
proof -
  have n: "''PERIPHERAL_DID_UPDATE_NAME'' \<notin> set (kinds (EVENTS example_env))"
    by (simp add: kinds_def example_env_def example_events_def)
  show ?thesis
    using n unrecognized_event_is_fatal [OF n, of discovered_P1 scanning_world] by simp
qed

text \<open>
  Claim C9. The event names being those of different kinds, an event named
  \<^verbatim>\<open>CENTRAL_DID_RETRIEVE_PERIPHERALS\<close> or \<^verbatim>\<open>CENTRAL_DID_RETRIEVE_CONNECTED_PERIPHERALS\<close> is
  accepted and changes nothing: the listener returns normally and the mirror, the
  registry and both logs are as before, so no handler was invoked.
\<close>

theorem retrieve_events_do_nothing:
  assumes "distinct (kinds (EVENTS env))"
    and "event = CENTRAL_DID_RETRIEVE_PERIPHERALS (EVENTS env)
         \<or> event = CENTRAL_DID_RETRIEVE_CONNECTED_PERIPHERALS (EVENTS env)"
  shows "onNativeEvent env event data w = (Inr (), w)"
proof -
  have c1: "(event = ''UPDATE'') = False" using assms by (auto simp: kinds_def)
  have c2: "(event = CENTRAL_DID_DISCONNECT_PERIPHERAL (EVENTS env)
             \<or> event = CENTRAL_DID_DISCOVER_PERIPHERAL (EVENTS env)) = False"
    using assms by (auto simp: kinds_def)
  have c3: "(event = CENTRAL_DID_UPDATE_STATE (EVENTS env)) = False"
    using assms by (auto simp: kinds_def)
  have c4: "(event = CENTRAL_DID_RETRIEVE_CONNECTED_PERIPHERALS (EVENTS env)
             \<or> event = CENTRAL_DID_RETRIEVE_PERIPHERALS (EVENTS env)) = True"
    using assms(2) by blast
  show ?thesis by (simp only: onNativeEvent_def c1 c2 c3 c4 if_False if_True)
qed

theorem retrieve_events_do_nothing_witness:
  "onNativeEvent example_env ''CENTRAL_DID_RETRIEVE_PERIPHERALS'' discovered_P1 scanning_world
     = (Inr (), scanning_world)
   \<and> onNativeEvent example_env ''CENTRAL_DID_RETRIEVE_CONNECTED_PERIPHERALS'' discovered_P1
       scanning_world
     = (Inr (), scanning_world)"
proof -
  have a: "''CENTRAL_DID_RETRIEVE_PERIPHERALS'' =
             CENTRAL_DID_RETRIEVE_PERIPHERALS (EVENTS example_env)
         \<or> ''CENTRAL_DID_RETRIEVE_PERIPHERALS'' =
             CENTRAL_DID_RETRIEVE_CONNECTED_PERIPHERALS (EVENTS example_env)"
    by (simp add: example_env_def example_events_def)
  have b: "''CENTRAL_DID_RETRIEVE_CONNECTED_PERIPHERALS'' =
             CENTRAL_DID_RETRIEVE_PERIPHERALS (EVENTS example_env)
         \<or> ''CENTRAL_DID_RETRIEVE_CONNECTED_PERIPHERALS'' =
             CENTRAL_DID_RETRIEVE_CONNECTED_PERIPHERALS (EVENTS example_env)"
    by (simp add: example_env_def example_events_def)
  show ?thesis
    using retrieve_events_do_nothing [OF kinds_example a, of discovered_P1 scanning_world]
      retrieve_events_do_nothing [OF kinds_example b, of discovered_P1 scanning_world]
    by simp
qed

subsection \<open>Cancelling a scan\<close>









subsection \<open>Validation before any effect\<close>

text \<open>
  Claim C6, as the code has it. Called with a malformed peripheral UUID,
  \<^verbatim>\<open>connectAsync\<close>, \<^verbatim>\<open>disconnectAsync\<close> and \<^verbatim>\<open>readRSSIAsync\<close> fail with a validation failure
  (the malformed-address error, or the unavailable-capability error of the check that
  precedes it) in their synchronous part, before any native call. The three are
  declared \<^verbatim>\<open>async\<close>, so the failure is not thrown to the caller: the call returns a
  promise rejected with it. The state is the one before the call: no native request
  was issued, no handler registered (not even \<^verbatim>\<open>onDisconnect\<close>), and the mirror is
  unchanged.
\<close>

theorem malformed_uuid_fails_without_effect:
  assumes "\<not> isValidUUID env uuid"
  shows "(\<exists>e. validation_failure e
            \<and> (isCapabilitySupported env ''connectPeripheralAsync'' \<longrightarrow> e = MalformedAddress uuid)
            \<and> connectAsync env uuid opts w = (Inl e, w)
            \<and> async (connectAsync env uuid opts w) = (Rejects e, w))
    \<and> (\<exists>e. validation_failure e
            \<and> (isCapabilitySupported env ''disconnectPeripheralAsync'' \<longrightarrow> e = MalformedAddress uuid)
            \<and> disconnectAsync env uuid w = (Inl e, w)
            \<and> async (disconnectAsync env uuid w) = (Rejects e, w))
    \<and> (\<exists>e. validation_failure e
            \<and> (isCapabilitySupported env ''readRSSIAsync'' \<longrightarrow> e = MalformedAddress uuid)
            \<and> readRSSIAsync env uuid w = (Inl e, w)
            \<and> async (readRSSIAsync env uuid w) = (Rejects e, w))"
  using assms
  by (simp add: connectAsync_def disconnectAsync_def readRSSIAsync_def
      invariantAvailability_def invariantUUID_def)

theorem malformed_uuid_fails_without_effect_witness:
  "connectAsync example_env [] \<lparr>timeout = Some 50, options = None, onDisconnect = Some 4\<rparr> scanning_world
     = (Inl (MalformedAddress []), scanning_world)
   \<and> disconnectAsync example_env [] scanning_world = (Inl (MalformedAddress []), scanning_world)
   \<and> readRSSIAsync example_env [] scanning_world = (Inl (MalformedAddress []), scanning_world)
   \<and> async (connectAsync example_env []
              \<lparr>timeout = Some 50, options = None, onDisconnect = Some 4\<rparr> scanning_world)
     = (Rejects (MalformedAddress []), scanning_world)
   \<and> async (disconnectAsync example_env [] scanning_world)
     = (Rejects (MalformedAddress []), scanning_world)
   \<and> async (readRSSIAsync example_env [] scanning_world)
     = (Rejects (MalformedAddress []), scanning_world)"
proof -
  have m: "\<not> isValidUUID example_env []" by (simp add: example_env_def)
  have a: "isCapabilitySupported example_env ''connectPeripheralAsync''"
    "isCapabilitySupported example_env ''disconnectPeripheralAsync''"
    "isCapabilitySupported example_env ''readRSSIAsync''"
    by (simp_all add: example_env_def)
  show ?thesis
    using malformed_uuid_fails_without_effect
      [OF m, of "\<lparr>timeout = Some 50, options = None, onDisconnect = Some 4\<rparr>" scanning_world] a
    by auto
qed

text \<open>
  The claim as first worded has the failure raised synchronously. At a malformed UUID
  on a platform with every capability, nothing is thrown to the caller of
  \<^verbatim>\<open>connectAsync\<close>, \<^verbatim>\<open>disconnectAsync\<close> or \<^verbatim>\<open>readRSSIAsync\<close>: each returns a rejected promise.
  The plain function \<^verbatim>\<open>startScan\<close>, by contrast, does throw its availability failure.
\<close>

theorem malformed_uuid_rejects_not_throws:
  "\<not> isValidUUID example_env []
   \<and> fst (async (connectAsync example_env [] connect_50 scanning_world))
       \<noteq> Throws (MalformedAddress [])
   \<and> fst (async (connectAsync example_env [] connect_50 scanning_world))
       = Rejects (MalformedAddress [])
   \<and> fst (async (disconnectAsync example_env [] scanning_world)) = Rejects (MalformedAddress [])
   \<and> fst (async (readRSSIAsync example_env [] scanning_world)) = Rejects (MalformedAddress [])
   \<and> fst (plain (startScan unavailable_env plain_scan 1 scanning_world))
       = Throws (UnavailableCapability ''startScanningAsync'')"
  by (simp add: connectAsync_def disconnectAsync_def readRSSIAsync_def startScan_def
      invariantAvailability_def invariantUUID_def example_env_def unavailable_env_def)

subsection \<open>Attribute access and the availability check\<close>

text \<open>
  Claim C4 at a platform that supports no method. \<^verbatim>\<open>readCharacteristicAsync\<close>,
  \<^verbatim>\<open>writeCharacteristicAsync\<close> and \<^verbatim>\<open>readDescriptorAsync\<close> hand their request to the native
  module all the same and do not fail with the unavailable-capability error, while
  \<^verbatim>\<open>writeDescriptorAsync\<close> beside them fails with it and issues nothing.
\<close>

theorem attribute_access_skips_availability:
  "\<not> isCapabilitySupported unavailable_env ''readCharacteristicAsync''
   \<and> readCharacteristicAsync unavailable_env attribute_example empty_world =
       (Inr (Some ''AQ==''),
        empty_world\<lparr>nativeCalls := [ReadCharacteristicAsync ''P1'' ''S1'' ''C1'' Read]\<rparr>)
   \<and> \<not> isCapabilitySupported unavailable_env ''writeCharacteristicAsync''
   \<and> writeCharacteristicAsync unavailable_env attribute_example empty_world =
       (Inr (Some (Characteristic ''P1|S1|C1'' [Write] [] None)),
        empty_world\<lparr>nativeCalls := [WriteCharacteristicAsync ''P1'' ''S1'' ''C1'' None Write]\<rparr>)
   \<and> \<not> isCapabilitySupported unavailable_env ''readDescriptorAsync''
   \<and> readDescriptorAsync unavailable_env attribute_example empty_world =
       (Inr (Some ''AQ==''),
        empty_world\<lparr>nativeCalls := [ReadDescriptorAsync ''P1'' ''S1'' ''C1'' ''D1'' Read]\<rparr>)
   \<and> writeDescriptorAsync unavailable_env attribute_example empty_world =
       (Inl (UnavailableCapability ''writeDescriptorAsync''), empty_world)"
  by (simp add: readCharacteristicAsync_def writeCharacteristicAsync_def readDescriptorAsync_def
      writeDescriptorAsync_def invariantAvailability_def request_def issue_def
      unavailable_env_def example_env_def attribute_example_def empty_world_def no_result_def)

subsection \<open>Connecting with a timeout\<close>

lemma connectAsync_started:
  assumes "connectAsync env uuid opts w = (Inr c, w1)"
  shows "isValidUUID env uuid \<and> conn_peripheralUUID c = uuid \<and> conn_timeout c = timeout opts
    \<and> timeoutTag c = (if truthy (timeout opts) then TimerPending else NoTimer)
    \<and> returned c = Pending \<and> \<not> nativeSettled c"
  using assms
  by (auto simp: connectAsync_def invariantAvailability_def invariantUUID_def Let_def
      split: if_splits)

lemma disconnectAsync_calls:
  "isValidUUID env uuid \<Longrightarrow>
   nativeCalls (snd (disconnectAsync env uuid w)) =
     nativeCalls w @
       (if isCapabilitySupported env ''disconnectPeripheralAsync''
        then [DisconnectPeripheralAsync uuid] else [])"
  by (simp add: disconnectAsync_def invariantAvailability_def invariantUUID_def request_def
      issue_def)

lemma timer_expires:
  assumes "timeoutTag c = TimerPending" and "returned c = Pending"
    and "connect_step env (c, w) TimerExpires = (c', w')"
  shows "returned c' = Rejected (Timeout (conn_peripheralUUID c) (timeout_ms (conn_timeout c)))
    \<and> timeoutTag c' = TimerFired
    \<and> w' = snd (disconnectAsync env (conn_peripheralUUID c) w)"
  using assms by (auto simp: Let_def split: prod.splits)

lemma step_without_pending_timer:
  assumes "timeoutTag c \<noteq> TimerPending"
    and "connect_step env (c, w) ev = (c', w')"
  shows "w' = w \<and> timeoutTag c' \<noteq> TimerPending
    \<and> (returned c \<noteq> Pending \<longrightarrow> returned c' = returned c)"
proof (cases ev)
  case TimerExpires
  then show ?thesis using assms by simp
next
  case (NativeSettles r)
  show ?thesis
  proof (cases "nativeSettled c")
    case True
    then show ?thesis using assms NativeSettles by simp
  next
    case False
    have "timeoutTag c' = clearTimeout (timeoutTag c)" and "w' = w"
      using assms(2) NativeSettles False by (auto simp: Let_def)
    moreover have "clearTimeout (timeoutTag c) \<noteq> TimerPending"
      by (cases "timeoutTag c") simp_all
    moreover have "returned c \<noteq> Pending \<longrightarrow> returned c' = returned c"
      using assms(2) NativeSettles False
      by (cases "returned c"; cases r) (auto simp: Let_def)
    ultimately show ?thesis by simp
  qed
qed

lemma run_without_pending_timer:
  assumes "timeoutTag c \<noteq> TimerPending" and "returned c \<noteq> Pending"
    and "connect_run env es (c, w) = (c', w')"
  shows "w' = w \<and> timeoutTag c' \<noteq> TimerPending \<and> returned c' = returned c"
  using assms
proof (induction es arbitrary: c c' w')
  case Nil
  then show ?case by (simp add: connect_run_def)
next
  case (Cons ev es)
  obtain c1 w1 where s: "connect_step env (c, w) ev = (c1, w1)" by fastforce
  note f = step_without_pending_timer [OF Cons.prems(1) s]
  have r: "connect_run env es (c1, w) = (c', w')"
    using Cons.prems(3) s f by (simp add: connect_run_def)
  have "returned c1 \<noteq> Pending" using f Cons.prems(2) by simp
  then show ?case using Cons.IH [OF _ _ r] f Cons.prems(2) by simp
qed

lemma step_settles_timer:
  assumes "returned c \<noteq> Pending \<longrightarrow> timeoutTag c \<noteq> TimerPending"
    and "connect_step env (c, w) ev = (c', w')"
  shows "returned c' \<noteq> Pending \<longrightarrow> timeoutTag c' \<noteq> TimerPending"
proof (cases ev)
  case TimerExpires
  then show ?thesis using assms by (auto simp: Let_def split: if_splits prod.splits)
next
  case (NativeSettles r)
  have "clearTimeout (timeoutTag c) \<noteq> TimerPending"
    by (cases "timeoutTag c") simp_all
  then show ?thesis using assms NativeSettles by (auto simp: Let_def split: if_splits)
qed

lemma run_settles_timer:
  assumes "returned c \<noteq> Pending \<longrightarrow> timeoutTag c \<noteq> TimerPending"
    and "connect_run env es (c, w) = (c', w')"
  shows "returned c' \<noteq> Pending \<longrightarrow> timeoutTag c' \<noteq> TimerPending"
  using assms
proof (induction es arbitrary: c w c' w')
  case Nil
  then show ?case by (simp add: connect_run_def)
next
  case (Cons ev es)
  obtain c1 w1 where s: "connect_step env (c, w) ev = (c1, w1)" by fastforce
  have r: "connect_run env es (c1, w1) = (c', w')"
    using Cons.prems(2) s by (simp add: connect_run_def)
  show ?case using Cons.IH [OF step_settles_timer [OF Cons.prems(1) s] r] .
qed

text \<open>
  Claim C3, as the code has it. After \<^verbatim>\<open>connectAsync\<close> was called with a timeout (a
  non-zero one: 0 sets no timer), let the timer expire before the native connect has
  settled. Then, whatever happens afterwards, the returned promise is rejected with
  the timeout error; the requests issued since are one disconnect for the same
  peripheral id where the platform supports \<^verbatim>\<open>disconnectPeripheralAsync\<close>, and none
  where it does not (the availability check of \<^verbatim>\<open>disconnectAsync\<close> throws first); and
  the timer is not pending. On every course of events (success, native failure or
  timeout), once the returned promise has settled no timer is pending.
\<close>

theorem connect_timeout:
  assumes "connectAsync env uuid opts w = (Inr c, w1)"
    and "timeout opts = Some t" and "t \<noteq> 0"
    and "connect_run env (TimerExpires # es) (c, w1) = (c', w')"
    and "connect_run env es' (c, w1) = (c'', w'')"
  shows "returned c' = Rejected (Timeout uuid t)
    \<and> nativeCalls w' =
        nativeCalls w1 @
          (if isCapabilitySupported env ''disconnectPeripheralAsync''
           then [DisconnectPeripheralAsync uuid] else [])
    \<and> timeoutTag c' \<noteq> TimerPending
    \<and> (returned c'' \<noteq> Pending \<longrightarrow> timeoutTag c'' \<noteq> TimerPending)"
proof -
  note st = connectAsync_started [OF assms(1)]
  have pend: "timeoutTag c = TimerPending" "returned c = Pending"
    using st assms(2,3) by simp_all
  obtain c1 w2 where s: "connect_step env (c, w1) TimerExpires = (c1, w2)" by fastforce
  note fired = timer_expires [OF pend s]
  have r: "connect_run env es (c1, w2) = (c', w')"
    using assms(4) s by (simp add: connect_run_def)
  have "timeoutTag c1 \<noteq> TimerPending" "returned c1 \<noteq> Pending"
    using fired by simp_all
  from run_without_pending_timer [OF this r]
  have after: "w' = w2" "timeoutTag c' \<noteq> TimerPending" "returned c' = returned c1"
    by simp_all
  have msg: "returned c' = Rejected (Timeout uuid t)"
    using after fired st assms(2) by simp
  have calls: "nativeCalls w' =
        nativeCalls w1 @
          (if isCapabilitySupported env ''disconnectPeripheralAsync''
           then [DisconnectPeripheralAsync uuid] else [])"
    using after fired st disconnectAsync_calls [of env uuid w1] by simp
  have inv: "returned c'' \<noteq> Pending \<longrightarrow> timeoutTag c'' \<noteq> TimerPending"
    using run_settles_timer [OF _ assms(5)] pend by simp
  show ?thesis using msg calls after(2) inv by simp
qed

lemma connect_50_started:
  "connectAsync example_env ''P1'' connect_50 empty_world = (Inr attempt_50, connecting_world)"
  by (simp add: connectAsync_def invariantAvailability_def invariantUUID_def issue_def Let_def
      example_env_def connect_50_def attempt_50_def connecting_world_def empty_world_def)

theorem connect_timeout_witness:
  "connectAsync example_env ''P1'' connect_50 empty_world = (Inr attempt_50, connecting_world)
   \<and> returned (fst (connect_run example_env [TimerExpires, NativeSettles (Inr no_result)]
                      (attempt_50, connecting_world)))
     = Rejected (Timeout ''P1'' 50)
   \<and> nativeCalls (snd (connect_run example_env [TimerExpires, NativeSettles (Inr no_result)]
                         (attempt_50, connecting_world)))
     = [ConnectPeripheralAsync ''P1'' None, DisconnectPeripheralAsync ''P1'']
   \<and> returned (fst (connect_run example_env [NativeSettles (Inl (NativeFailure ''refused''))]
                      (attempt_50, connecting_world)))
     = Rejected (NativeFailure ''refused'')
   \<and> timeoutTag (fst (connect_run example_env [NativeSettles (Inl (NativeFailure ''refused''))]
                      (attempt_50, connecting_world)))
     \<noteq> TimerPending"
proof -
  have t: "timeout connect_50 = Some 50" "(50::int) \<noteq> 0" by (simp_all add: connect_50_def)
  have a: "isCapabilitySupported example_env ''disconnectPeripheralAsync''"
    by (simp add: example_env_def)
  have n: "returned (fst (connect_run example_env [NativeSettles (Inl (NativeFailure ''refused''))]
                      (attempt_50, connecting_world)))
     = Rejected (NativeFailure ''refused'')"
    by (simp add: connect_run_def attempt_50_def Let_def)
  have c: "nativeCalls connecting_world = [ConnectPeripheralAsync ''P1'' None]"
    by (simp add: connecting_world_def empty_world_def)
  show ?thesis
    using connect_timeout
      [OF connect_50_started t,
       of "[NativeSettles (Inr no_result)]"
          "fst (connect_run example_env [TimerExpires, NativeSettles (Inr no_result)]
                  (attempt_50, connecting_world))"
          "snd (connect_run example_env [TimerExpires, NativeSettles (Inr no_result)]
                  (attempt_50, connecting_world))"
          "[NativeSettles (Inl (NativeFailure ''refused''))]"
          "fst (connect_run example_env [NativeSettles (Inl (NativeFailure ''refused''))]
                  (attempt_50, connecting_world))"
          "snd (connect_run example_env [NativeSettles (Inl (NativeFailure ''refused''))]
                  (attempt_50, connecting_world))"]
      a n c connect_50_started
    by simp
qed

theorem timeout_without_disconnect_capability:
  "connectAsync no_disconnect_env ''P1'' connect_50 empty_world = (Inr attempt_50, connecting_world)
   \<and> returned (fst (connect_step no_disconnect_env (attempt_50, connecting_world) TimerExpires))
     = Rejected (Timeout ''P1'' 50)
   \<and> nativeCalls (snd (connect_step no_disconnect_env (attempt_50, connecting_world) TimerExpires))
     = [ConnectPeripheralAsync ''P1'' None]"
  by (simp add: connectAsync_def disconnectAsync_def invariantAvailability_def invariantUUID_def
      issue_def Let_def no_disconnect_env_def example_env_def connect_50_def attempt_50_def
      connecting_world_def empty_world_def)

subsection \<open>Recursive discovery\<close>

lemma split_nonempty: "split d s \<noteq> []"
  by (induction s) (auto split: list.splits)

lemma length_split: "length (split d s) = Suc (count_list s d)"
proof (induction s)
  case Nil
  show ?case by simp
next
  case (Cons c s)
  then show ?case using split_nonempty [of d s] by (cases "split d s") auto
qed

lemma awaiting_task: "fst (awaiting l (r, w)) = fst (awaiting l (r, w'))"
  by (cases r) simp_all

lemma load_task:
  "fst (loadChildrenRecursivelyAsync env i w) = fst (loadChildrenRecursivelyAsync env i w')"
  by (simp add: loadChildrenRecursivelyAsync_def Let_def
      discoverServicesForPeripheralAsync_def discoverCharacteristicsForServiceAsync_def
      discoverDescriptorsForCharacteristicAsync_def split: sum.splits)

lemma load_world:
  "snd (loadChildrenRecursivelyAsync env i w) =
     w\<lparr>nativeCalls := nativeCalls w @ requested (fst (loadChildrenRecursivelyAsync env i w))\<rparr>"
  by (simp add: loadChildrenRecursivelyAsync_def Let_def issue_def
      discoverServicesForPeripheralAsync_def discoverCharacteristicsForServiceAsync_def
      discoverDescriptorsForCharacteristicAsync_def split: sum.splits)

lemma start_each_tasks:
  "fst (start_each env ids w) = map (\<lambda>i. fst (loadChildrenRecursivelyAsync env i w)) ids"
proof (induction ids arbitrary: w)
  case Nil
  show ?case by simp
next
  case (Cons i ids)
  have "fst (start_each env ids (snd (loadChildrenRecursivelyAsync env i w))) =
        map (\<lambda>j. fst (loadChildrenRecursivelyAsync env j w)) ids"
    using Cons [of "snd (loadChildrenRecursivelyAsync env i w)"]
      load_task [of env _ "snd (loadChildrenRecursivelyAsync env i w)" w]
    by simp
  then show ?case by (simp add: split_beta Let_def)
qed

lemma start_each_world:
  "snd (start_each env ids w) =
     w\<lparr>nativeCalls := nativeCalls w
          @ concat (map (\<lambda>i. requested (fst (loadChildrenRecursivelyAsync env i w))) ids)\<rparr>"
proof (induction ids arbitrary: w)
  case Nil
  show ?case by simp
next
  case (Cons i ids)
  let ?w1 = "snd (loadChildrenRecursivelyAsync env i w)"
  have t: "\<And>j. fst (loadChildrenRecursivelyAsync env j ?w1) =
                fst (loadChildrenRecursivelyAsync env j w)"
    by (rule load_task)
  have "snd (start_each env (i # ids) w) = snd (start_each env ids ?w1)"
    by (simp add: split_beta Let_def)
  also have "\<dots> = ?w1\<lparr>nativeCalls := nativeCalls ?w1
          @ concat (map (\<lambda>j. requested (fst (loadChildrenRecursivelyAsync env j w))) ids)\<rparr>"
    using Cons [of ?w1] by (simp add: t)
  also have "\<dots> = w\<lparr>nativeCalls := nativeCalls w
          @ concat (map (\<lambda>j. requested (fst (loadChildrenRecursivelyAsync env j w))) (i # ids))\<rparr>"
    by (subst (1 2) load_world) simp
  finally show ?case .
qed

lemma map_filter_empty: "List.map_filter f xs = [] \<longleftrightarrow> (\<forall>x \<in> set xs. f x = None)"
  by (induction xs) (auto simp: List.map_filter_simps split: option.splits)

lemma Promise_all_first:
  "\<exists>first. Promise_all env ids ts = Gathering first ts
     \<and> (first = None \<longleftrightarrow> (\<forall>t \<in> set ts. rejected (outcome t) = None))"
proof -
  let ?a = "List.map_filter (\<lambda>(i, t). if thrown env i then rejected (outcome t) else None)
              (zip ids ts)"
  let ?b = "List.map_filter (\<lambda>t. rejected (outcome t)) ts"
  have ab: "?b = [] \<Longrightarrow> ?a = []"
    by (auto simp: map_filter_empty dest: set_zip_rightD)
  have "(?a @ ?b = []) \<longleftrightarrow> ?b = []"
    using ab by blast
  also have "\<dots> \<longleftrightarrow> (\<forall>t \<in> set ts. rejected (outcome t) = None)"
    by (rule map_filter_empty)
  finally show ?thesis
    by (cases "?a @ ?b") (auto simp: Promise_all_def)
qed

lemma load_all_starts_every_child:
  "\<exists>first.
     load_all env ids w =
       (Gathering first (map (\<lambda>i. fst (loadChildrenRecursivelyAsync env i w)) ids),
        w\<lparr>nativeCalls := nativeCalls w
             @ concat (map (\<lambda>i. requested (fst (loadChildrenRecursivelyAsync env i w))) ids)\<rparr>)
     \<and> (first = None \<longleftrightarrow>
          (\<forall>i \<in> set ids. rejected (outcome (fst (loadChildrenRecursivelyAsync env i w))) = None))"
proof -
  obtain first where
    "Promise_all env ids (fst (start_each env ids w)) = Gathering first (fst (start_each env ids w))"
    "first = None \<longleftrightarrow> (\<forall>t \<in> set (fst (start_each env ids w)). rejected (outcome t) = None)"
    using Promise_all_first [of env ids "fst (start_each env ids w)"] by blast
  then show ?thesis
    using start_each_world [of env ids w]
    by (auto simp: load_all_def split_beta Let_def start_each_tasks)
qed

text \<open>
  Claim C1, as the code has it. \<^verbatim>\<open>_loadChildrenRecursivelyAsync\<close> looks at nothing but
  the number of components the delimiter separates in the id. With four it fails with
  "descriptors have no children", and with a number other than one to four with the
  unknown-id error, in both cases with no request issued. With one, two or three it
  calls the service, characteristic or descriptor discovery for the id: exactly that
  request is issued and awaited, unless the availability check or the decoding of the
  id fails first, and then the call fails with that error and issues nothing. When
  the awaited request fails, the call fails with its error. When the service
  discovery is answered, a call is made for every service of the answer, in the order
  of the answer and each up to its own request, before any of them runs on, and the
  function waits for them all; likewise for every characteristic when the
  characteristic discovery is answered. When the descriptor discovery is answered,
  the function returns the descriptors of the answer, with no further call and no
  further request.
\<close>

theorem loadChildren_dispatch:
  "(length (split (DELIMINATOR env) i) = 4 \<longrightarrow>
      loadChildrenRecursivelyAsync env i w = (Failed DescriptorsHaveNoChildren, w))
   \<and> (length (split (DELIMINATOR env) i) \<notin> {1, 2, 3, 4} \<longrightarrow>
      loadChildrenRecursivelyAsync env i w = (Failed (UnknownID i), w))
   \<and> (length (split (DELIMINATOR env) i) = 1 \<longrightarrow>
        (\<forall>u. isCapabilitySupported env ''discoverServicesForPeripheralAsync''
              \<and> fromTransactionId env i = Inr u \<longrightarrow>
           loadChildrenRecursivelyAsync env i w =
             (Awaiting PeripheralLevel (DiscoverServicesForPeripheralAsync u None None),
              w\<lparr>nativeCalls := nativeCalls w @ [DiscoverServicesForPeripheralAsync u None None]\<rparr>))
      \<and> (\<not> isCapabilitySupported env ''discoverServicesForPeripheralAsync'' \<longrightarrow>
           loadChildrenRecursivelyAsync env i w =
             (Failed (UnavailableCapability ''discoverServicesForPeripheralAsync''), w))
      \<and> (\<forall>e. isCapabilitySupported env ''discoverServicesForPeripheralAsync''
              \<and> fromTransactionId env i = Inl e \<longrightarrow>
           loadChildrenRecursivelyAsync env i w = (Failed e, w)))
   \<and> (\<forall>c r p. nativeBridge env c = Inr r \<and> res_peripheral r = Some p \<longrightarrow>
        (\<exists>first.
           settle env [] (Awaiting PeripheralLevel c) w =
             (Gathering first
                (map (\<lambda>s. fst (loadChildrenRecursivelyAsync env (service_id s) w)) (services p)),
              w\<lparr>nativeCalls := nativeCalls w
                   @ concat (map (\<lambda>s. requested
                                         (fst (loadChildrenRecursivelyAsync env (service_id s) w)))
                               (services p))\<rparr>)
           \<and> (first = None \<longleftrightarrow>
                (\<forall>s \<in> set (services p).
                   rejected (outcome (fst (loadChildrenRecursivelyAsync env (service_id s) w)))
                     = None))))
   \<and> (\<forall>c r ch. nativeBridge env c = Inr r \<and> res_characteristic r = Some ch \<longrightarrow>
        settle env [] (Awaiting CharacteristicLevel c) w =
          (Loaded (Descriptors (descriptors ch)), w))
   \<and> (length (split (DELIMINATOR env) i) = 2 \<longrightarrow>
        (\<forall>u. isCapabilitySupported env ''discoverCharacteristicsForServiceAsync''
              \<and> fromTransactionId env i = Inr u \<longrightarrow>
           loadChildrenRecursivelyAsync env i w =
             (Awaiting ServiceLevel (DiscoverCharacteristicsForServiceAsync u None None),
              w\<lparr>nativeCalls :=
                   nativeCalls w @ [DiscoverCharacteristicsForServiceAsync u None None]\<rparr>))
      \<and> (\<not> isCapabilitySupported env ''discoverCharacteristicsForServiceAsync'' \<longrightarrow>
           loadChildrenRecursivelyAsync env i w =
             (Failed (UnavailableCapability ''discoverCharacteristicsForServiceAsync''), w))
      \<and> (\<forall>e. isCapabilitySupported env ''discoverCharacteristicsForServiceAsync''
              \<and> fromTransactionId env i = Inl e \<longrightarrow>
           loadChildrenRecursivelyAsync env i w = (Failed e, w)))
   \<and> (length (split (DELIMINATOR env) i) = 3 \<longrightarrow>
        (\<forall>u. isCapabilitySupported env ''discoverDescriptorsForCharacteristicAsync''
              \<and> fromTransactionId env i = Inr u \<longrightarrow>
           loadChildrenRecursivelyAsync env i w =
             (Awaiting CharacteristicLevel (DiscoverDescriptorsForCharacteristicAsync u None None),
              w\<lparr>nativeCalls :=
                   nativeCalls w @ [DiscoverDescriptorsForCharacteristicAsync u None None]\<rparr>))
      \<and> (\<not> isCapabilitySupported env ''discoverDescriptorsForCharacteristicAsync'' \<longrightarrow>
           loadChildrenRecursivelyAsync env i w =
             (Failed (UnavailableCapability ''discoverDescriptorsForCharacteristicAsync''), w))
      \<and> (\<forall>e. isCapabilitySupported env ''discoverDescriptorsForCharacteristicAsync''
              \<and> fromTransactionId env i = Inl e \<longrightarrow>
           loadChildrenRecursivelyAsync env i w = (Failed e, w)))
   \<and> (\<forall>c r s. nativeBridge env c = Inr r \<and> res_service r = Some s \<longrightarrow>
        (\<exists>first.
           settle env [] (Awaiting ServiceLevel c) w =
             (Gathering first
                (map (\<lambda>ch. fst (loadChildrenRecursivelyAsync env (characteristic_id ch) w))
                   (characteristics s)),
              w\<lparr>nativeCalls := nativeCalls w
                   @ concat (map (\<lambda>ch. requested
                                   (fst (loadChildrenRecursivelyAsync env (characteristic_id ch) w)))
                               (characteristics s))\<rparr>)
           \<and> (first = None \<longleftrightarrow>
                (\<forall>ch \<in> set (characteristics s).
                   rejected (outcome (fst (loadChildrenRecursivelyAsync env (characteristic_id ch) w)))
                     = None))))
   \<and> (\<forall>l c e. nativeBridge env c = Inl e \<longrightarrow>
        settle env [] (Awaiting l c) w = (Failed e, w))"
proof (intro conjI impI allI)
  fix c r p
  assume "nativeBridge env c = Inr r \<and> res_peripheral r = Some p"
  then show "\<exists>first.
           settle env [] (Awaiting PeripheralLevel c) w =
             (Gathering first
                (map (\<lambda>s. fst (loadChildrenRecursivelyAsync env (service_id s) w)) (services p)),
              w\<lparr>nativeCalls := nativeCalls w
                   @ concat (map (\<lambda>s. requested
                                         (fst (loadChildrenRecursivelyAsync env (service_id s) w)))
                               (services p))\<rparr>)
           \<and> (first = None \<longleftrightarrow>
                (\<forall>s \<in> set (services p).
                   rejected (outcome (fst (loadChildrenRecursivelyAsync env (service_id s) w)))
                     = None))"
    using load_all_starts_every_child [of env "map service_id (services p)" w]
    by (simp add: comp_def)
next
  fix c r s
  assume "nativeBridge env c = Inr r \<and> res_service r = Some s"
  then show "\<exists>first.
           settle env [] (Awaiting ServiceLevel c) w =
             (Gathering first
                (map (\<lambda>ch. fst (loadChildrenRecursivelyAsync env (characteristic_id ch) w))
                   (characteristics s)),
              w\<lparr>nativeCalls := nativeCalls w
                   @ concat (map (\<lambda>ch. requested
                                   (fst (loadChildrenRecursivelyAsync env (characteristic_id ch) w)))
                               (characteristics s))\<rparr>)
           \<and> (first = None \<longleftrightarrow>
                (\<forall>ch \<in> set (characteristics s).
                   rejected (outcome (fst (loadChildrenRecursivelyAsync env (characteristic_id ch) w)))
                     = None))"
    using load_all_starts_every_child [of env "map characteristic_id (characteristics s)" w]
    by (simp add: comp_def)
qed (auto simp: loadChildrenRecursivelyAsync_def Let_def issue_def only_id_def
      invariantAvailability_def discoverServicesForPeripheralAsync_def
      discoverCharacteristicsForServiceAsync_def discoverDescriptorsForCharacteristicAsync_def)

lemma load_P1:
  "loadChildrenRecursivelyAsync fanout_env ''P1'' w =
     (Awaiting PeripheralLevel services_of_P1, w\<lparr>nativeCalls := nativeCalls w @ [services_of_P1]\<rparr>)"
  by (simp add: loadChildrenRecursivelyAsync_def discoverServicesForPeripheralAsync_def
      invariantAvailability_def fromTransactionId_def only_id_def issue_def fanout_env_def
      example_env_def services_of_P1_def)

lemma load_S1:
  "loadChildrenRecursivelyAsync fanout_env ''P1|S1'' w =
     (Awaiting ServiceLevel characteristics_of_S1,
      w\<lparr>nativeCalls := nativeCalls w @ [characteristics_of_S1]\<rparr>)"
  by (simp add: loadChildrenRecursivelyAsync_def discoverCharacteristicsForServiceAsync_def
      invariantAvailability_def fromTransactionId_def only_id_def issue_def fanout_env_def
      example_env_def characteristics_of_S1_def)

lemma load_S2:
  "loadChildrenRecursivelyAsync fanout_env ''P1|S2'' w =
     (Awaiting ServiceLevel characteristics_of_S2,
      w\<lparr>nativeCalls := nativeCalls w @ [characteristics_of_S2]\<rparr>)"
  by (simp add: loadChildrenRecursivelyAsync_def discoverCharacteristicsForServiceAsync_def
      invariantAvailability_def fromTransactionId_def only_id_def issue_def fanout_env_def
      example_env_def characteristics_of_S2_def)

lemma load_C1:
  "loadChildrenRecursivelyAsync fanout_env ''P1|S1|C1'' w =
     (Awaiting CharacteristicLevel descriptors_of_C1,
      w\<lparr>nativeCalls := nativeCalls w @ [descriptors_of_C1]\<rparr>)"
  by (simp add: loadChildrenRecursivelyAsync_def discoverDescriptorsForCharacteristicAsync_def
      invariantAvailability_def fromTransactionId_def only_id_def issue_def fanout_env_def
      example_env_def descriptors_of_C1_def)

lemma fanout_answers:
  "nativeBridge fanout_env services_of_P1 =
     Inr (no_result\<lparr>res_peripheral :=
            Some (Peripheral ''P1'' connected [Service ''P1|S1'' True [], Service ''P1|S2'' True []])\<rparr>)"
  "nativeBridge fanout_env characteristics_of_S1 =
     Inr (no_result\<lparr>res_service :=
            Some (Service ''P1|S1'' True [Characteristic ''P1|S1|C1'' [Read] [] None])\<rparr>)"
  "nativeBridge fanout_env characteristics_of_S2 = Inl (NativeFailure ''S2'')"
  "nativeBridge fanout_env descriptors_of_C1 = Inl (NativeFailure ''C1'')"
  by (simp_all add: fanout_env_def services_of_P1_def characteristics_of_S1_def
      characteristics_of_S2_def descriptors_of_C1_def)

theorem loadChildren_dispatch_witness:
  "loadChildrenRecursivelyAsync example_env ''P1|S1|C1|D1'' empty_world =
     (Failed DescriptorsHaveNoChildren, empty_world)
   \<and> loadChildrenRecursivelyAsync example_env ''P1|S1|C1|D1|E1'' empty_world =
     (Failed (UnknownID ''P1|S1|C1|D1|E1''), empty_world)
   \<and> loadChildrenRecursivelyAsync fanout_env ''P1'' empty_world =
     (Awaiting PeripheralLevel services_of_P1, empty_world\<lparr>nativeCalls := [services_of_P1]\<rparr>)
   \<and> settle fanout_env [] (Awaiting PeripheralLevel services_of_P1)
        (empty_world\<lparr>nativeCalls := [services_of_P1]\<rparr>) =
     (Gathering None
        [Awaiting ServiceLevel characteristics_of_S1, Awaiting ServiceLevel characteristics_of_S2],
      empty_world\<lparr>nativeCalls :=
        [services_of_P1, characteristics_of_S1, characteristics_of_S2]\<rparr>)
   \<and> settle example_env [] (Awaiting CharacteristicLevel descriptors_of_C1) empty_world =
     (Loaded (Descriptors [Descriptor ''P1|S1|C1|D1'' None]), empty_world)"
proof -
  have k4: "length (split (DELIMINATOR example_env) ''P1|S1|C1|D1'') = 4"
    by (simp add: example_env_def)
  have k5: "length (split (DELIMINATOR example_env) ''P1|S1|C1|D1|E1'') \<notin> {1, 2, 3, 4}"
    by (simp add: example_env_def)
  have k1: "length (split (DELIMINATOR fanout_env) ''P1'') = 1"
    by (simp add: fanout_env_def example_env_def)
  have g1: "isCapabilitySupported fanout_env ''discoverServicesForPeripheralAsync''
            \<and> fromTransactionId fanout_env ''P1'' =
                Inr \<lparr>peripheralUUID = ''P1'', serviceUUID = None, characteristicUUID = None,
                     descriptorUUID = None\<rparr>"
    by (simp add: fromTransactionId_def fanout_env_def example_env_def)
  have a1: "nativeBridge fanout_env services_of_P1 =
              Inr (no_result\<lparr>res_peripheral :=
                Some (Peripheral ''P1'' connected
                        [Service ''P1|S1'' True [], Service ''P1|S2'' True []])\<rparr>)
            \<and> res_peripheral (no_result\<lparr>res_peripheral :=
                Some (Peripheral ''P1'' connected
                        [Service ''P1|S1'' True [], Service ''P1|S2'' True []])\<rparr>) =
                Some (Peripheral ''P1'' connected
                        [Service ''P1|S1'' True [], Service ''P1|S2'' True []])"
    by (simp add: fanout_answers)
  have a3: "nativeBridge example_env descriptors_of_C1 =
              Inr (no_result\<lparr>res_characteristic :=
                Some (Characteristic ''P1|S1|C1'' [Read] [Descriptor ''P1|S1|C1|D1'' None] None)\<rparr>)
            \<and> res_characteristic (no_result\<lparr>res_characteristic :=
                Some (Characteristic ''P1|S1|C1'' [Read] [Descriptor ''P1|S1|C1|D1'' None] None)\<rparr>) =
                Some (Characteristic ''P1|S1|C1'' [Read] [Descriptor ''P1|S1|C1|D1'' None] None)"
    by (simp add: example_env_def descriptors_of_C1_def)
  note four =
    loadChildren_dispatch [of example_env "''P1|S1|C1|D1''" empty_world,
      THEN conjunct1, THEN mp, OF k4]
  note five =
    loadChildren_dispatch [of example_env "''P1|S1|C1|D1|E1''" empty_world,
      THEN conjunct2, THEN conjunct1, THEN mp, OF k5]
  note one =
    loadChildren_dispatch [of fanout_env "''P1''" empty_world,
      THEN conjunct2, THEN conjunct2, THEN conjunct1, THEN mp, OF k1,
      THEN conjunct1, THEN spec, THEN mp, OF g1]
  note fan =
    loadChildren_dispatch [of fanout_env "''P1''" "empty_world\<lparr>nativeCalls := [services_of_P1]\<rparr>",
      THEN conjunct2, THEN conjunct2, THEN conjunct2, THEN conjunct1,
      THEN spec, THEN spec, THEN spec, THEN mp, OF a1]
  note leaf =
    loadChildren_dispatch [of example_env "''P1''" empty_world,
      THEN conjunct2, THEN conjunct2, THEN conjunct2, THEN conjunct2, THEN conjunct1,
      THEN spec, THEN spec, THEN spec, THEN mp, OF a3]
  have fan': "settle fanout_env [] (Awaiting PeripheralLevel services_of_P1)
        (empty_world\<lparr>nativeCalls := [services_of_P1]\<rparr>) =
     (Gathering None
        [Awaiting ServiceLevel characteristics_of_S1, Awaiting ServiceLevel characteristics_of_S2],
      empty_world\<lparr>nativeCalls :=
        [services_of_P1, characteristics_of_S1, characteristics_of_S2]\<rparr>)"
    using fan by (auto simp: load_S1 load_S2)
  show ?thesis
    using four five one fan' leaf
    by (simp add: services_of_P1_def empty_world_def)
qed

theorem load_without_discovery_capability:
  "length (split (DELIMINATOR unavailable_env) ''P1'') = 1
   \<and> loadChildrenRecursivelyAsync unavailable_env ''P1'' empty_world =
       (Failed (UnavailableCapability ''discoverServicesForPeripheralAsync''), empty_world)"
  by (simp add: loadChildrenRecursivelyAsync_def discoverServicesForPeripheralAsync_def
      invariantAvailability_def only_id_def unavailable_env_def example_env_def)

text \<open>
  Two courses of events for a peripheral with two services. The requests for both
  services are issued before any request for a characteristic, and the second
  service's failure does not keep the first from going on. The load is rejected with
  the rejection that happens first: that of the second service when it answers
  first, that of the first service's characteristic when it does.
\<close>

lemma first_rejection_in_time:
  "outcome (fst (load_run fanout_env [[], [1], [0], [0, 0]]
                   (loadChildrenRecursivelyAsync fanout_env ''P1'' empty_world)))
     = Some (Inl (NativeFailure ''S2''))"
  "outcome (fst (load_run fanout_env [[], [0], [0, 0], [1]]
                   (loadChildrenRecursivelyAsync fanout_env ''P1'' empty_world)))
     = Some (Inl (NativeFailure ''C1''))"
  "nativeCalls (snd (load_run fanout_env [[], [1], [0], [0, 0]]
                      (loadChildrenRecursivelyAsync fanout_env ''P1'' empty_world)))
     = [services_of_P1, characteristics_of_S1, characteristics_of_S2, descriptors_of_C1]"
  "nativeCalls (snd (load_run fanout_env [[], [0], [0, 0], [1]]
                      (loadChildrenRecursivelyAsync fanout_env ''P1'' empty_world)))
     = [services_of_P1, characteristics_of_S1, characteristics_of_S2, descriptors_of_C1]"
  by (simp_all add: load_run_def load_P1 load_S1 load_S2 load_C1 fanout_answers load_all_def
      Promise_all_def thrown_def List.map_filter_simps no_result_def empty_world_def)

lemma those_nth:
  "those xs = Some vs \<Longrightarrow> j < length xs \<Longrightarrow> xs ! j = Some (vs ! j)"
proof (induction xs arbitrary: vs j)
  case Nil
  then show ?case by simp
next
  case (Cons x xs)
  then show ?case by (cases j) (auto split: option.splits)
qed

text \<open>A promise settles once: no later event changes the outcome of a settled call.\<close>

lemma settles_once:
  "outcome t = Some r \<Longrightarrow> outcome (fst (settle env path t w)) = Some r"
proof (induction env path t w arbitrary: r rule: settle.induct)
  case (2 env j path first ts w)
  show ?case
  proof (cases "j < length ts")
    case False
    then show ?thesis using "2.prems" by simp
  next
    case True
    obtain t' w1 where s: "settle env path (ts ! j) w = (t', w1)" by fastforce
    show ?thesis
    proof (cases first)
      case (Some e)
      then show ?thesis using "2.prems" True s by simp
    next
      case None
      then obtain vs where vs: "those (map (\<lambda>t. resolved (outcome t)) ts) = Some vs"
        using "2.prems" by auto
      have "resolved (outcome (ts ! j)) = Some (vs ! j)"
        using those_nth [OF vs] True by simp
      then have "outcome (ts ! j) = Some (Inr (vs ! j))"
        by (cases "outcome (ts ! j)" rule: resolved.cases) simp_all
      then have o: "outcome t' = Some (Inr (vs ! j))"
        using "2.IH" [OF True] s by simp
      then have same: "map (\<lambda>t. resolved (outcome t)) (ts[j := t']) =
                       map (\<lambda>t. resolved (outcome t)) ts"
        using \<open>resolved (outcome (ts ! j)) = Some (vs ! j)\<close> True
        by (simp add: map_update list_update_same_conv)
      show ?thesis using "2.prems" None True s o same by simp
    qed
  qed
qed simp_all

text \<open>
  A call rejected when it was made reaches \<^verbatim>\<open>Promise.all\<close> before one whose discovery
  threw, whatever their order in the array.
\<close>

lemma thrown_before_refused:
  "fst (load_all no_characteristics_env [''P1|S1'', ''P1|S1|C1|D1''] empty_world) =
     Gathering (Some DescriptorsHaveNoChildren)
       [Failed (UnavailableCapability ''discoverCharacteristicsForServiceAsync''),
        Failed DescriptorsHaveNoChildren]"
  by (simp add: load_all_def Promise_all_def thrown_def List.map_filter_simps
      loadChildrenRecursivelyAsync_def discoverCharacteristicsForServiceAsync_def
      invariantAvailability_def only_id_def no_characteristics_env_def fanout_env_def
      example_env_def)

end
